theory Spec2Isabelle
  imports Main
begin

section \<open>Data model of \<^verbatim>\<open>puzzle.py\<close>\<close>

text \<open>
  The grid is a two-dimensional numpy array of integers; it is modelled as the list of its
  rows. Coordinates, directions and dimensions are pairs of Python integers (\<open>int\<close>), written
  \<open>(x, y)\<close> and \<open>(width, height)\<close> as in the source. Every exception the module can raise is
  a value of \<open>error\<close>.
\<close>

datatype error =
    ValueError          \<comment> \<open>\<^verbatim>\<open>ValueError\<close>: invalid dimensions, impossible reshape\<close>
  | TileNotFound        \<comment> \<open>the \<^verbatim>\<open>Exception\<close> raised by \<^verbatim>\<open>locate_tile\<close>\<close>
  | IndexError          \<comment> \<open>an array index out of bounds\<close>
  | ZeroDivisionError   \<comment> \<open>\<^verbatim>\<open>%\<close> with a zero right operand\<close>
  | NameError           \<comment> \<open>a name bound neither locally, globally nor as a builtin\<close>

type_synonym PuzzleInternalState = "int list list"
type_synonym PuzzleTilePos = "int \<times> int"
type_synonym IntDirection2D = "int \<times> int"
type_synonym PuzzleMove = "int \<times> PuzzleTilePos \<times> IntDirection2D"

record Puzzle =
  dimensions :: "int \<times> int"
  grid :: PuzzleInternalState
  tile_pos :: PuzzleTilePos

text \<open>
  \<^verbatim>\<open>shape[0]\<close> of the array is the number of rows, \<^verbatim>\<open>shape[1]\<close> the length of a row.
  An array without rows is the empty list here, whatever its second extent was; every
  path of the module rejects such an array before the second extent matters.
\<close>

definition shape0 :: "'a list list \<Rightarrow> nat" where
  "shape0 g = length g"

definition shape1 :: "'a list list \<Rightarrow> nat" where
  "shape1 g = (case g of [] \<Rightarrow> 0 | r # _ \<Rightarrow> length r)"

text \<open>A list of rows is an array when all rows have the same length.\<close>

definition is_array2d :: "'a list list \<Rightarrow> bool" where
  "is_array2d g = list_all (\<lambda>r. length r = shape1 g) g"

subsection \<open>Constructor\<close>

text \<open>
  \<^verbatim>\<open>__init__\<close>: the check \<^verbatim>\<open>len(dimension) < 2\<close> cannot fire on a pair. The call
  \<^verbatim>\<open>super().__init__()\<close> of the interface class is taken not to raise.
\<close>

definition Puzzle_init ::
  "PuzzleInternalState \<Rightarrow> int \<times> int \<Rightarrow> PuzzleTilePos \<Rightarrow> error + Puzzle" where
  "Puzzle_init g dimension empty_tile_position =
     (if fst dimension < 2 \<or> snd dimension < 2 then Inl ValueError
      else Inr \<lparr>dimensions = dimension, grid = g, tile_pos = empty_tile_position\<rparr>)"

subsection \<open>\<^verbatim>\<open>locate_tile\<close>\<close>

text \<open>
  The inner loop over one row, started at column \<open>x\<close>; \<open>None\<close> when the row is exhausted
  without a match.
\<close>

fun locate_row :: "int list \<Rightarrow> int \<Rightarrow> int \<Rightarrow> int option" where
  "locate_row [] tile x = None"
| "locate_row (t # row) tile x =
     (if t = tile then Some x else locate_row row tile (x + 1))"

text \<open>The outer loop over the rows, started at row \<open>y\<close>; it raises when no row matches.\<close>

fun locate_rows :: "int list list \<Rightarrow> int \<Rightarrow> int \<Rightarrow> error + PuzzleTilePos" where
  "locate_rows [] tile y = Inl TileNotFound"
| "locate_rows (row # rows) tile y =
     (case locate_row row tile 0 of
        Some x \<Rightarrow> Inr (x, y)
      | None \<Rightarrow> locate_rows rows tile (y + 1))"

definition locate_tile :: "PuzzleInternalState \<Rightarrow> int \<Rightarrow> error + PuzzleTilePos" where
  "locate_tile state tile = locate_rows state tile 0"

text \<open>
  \<^verbatim>\<open>from_state\<close>: the position is located (value 0) when none is given, and the
  dimensions are read off the array's shape.
\<close>

definition from_state ::
  "PuzzleInternalState \<Rightarrow> PuzzleTilePos option \<Rightarrow> error + Puzzle" where
  "from_state state tp =
     (case (case tp of None \<Rightarrow> locate_tile state 0 | Some p \<Rightarrow> Inr p) of
        Inl e \<Rightarrow> Inl e
      | Inr pos \<Rightarrow> Puzzle_init state (int (shape1 state), int (shape0 state)) pos)"

text \<open>
  \<^verbatim>\<open>np.reshape(a, (r, c))\<close> of a flat sequence: row \<open>i\<close> is the \<open>i\<close>-th block of \<open>c\<close>
  elements. numpy raises \<^verbatim>\<open>ValueError\<close> when the sizes do not fit; one extent may be
  \<open>-1\<close> and is then inferred from the size of the input.
\<close>

definition chunks :: "nat \<Rightarrow> nat \<Rightarrow> 'a list \<Rightarrow> 'a list list" where
  "chunks r c xs = map (\<lambda>i. take c (drop (i * c) xs)) [0..<r]"

definition np_reshape :: "'a list \<Rightarrow> int \<times> int \<Rightarrow> error + 'a list list" where
  "np_reshape xs shp =
     (let n = int (length xs); r = fst shp; c = snd shp in
      if r < - 1 \<or> c < - 1 then Inl ValueError
      else if r = - 1 \<and> c = - 1 then Inl ValueError
      else if r = - 1 then
        (if 0 < c \<and> n mod c = 0 then Inr (chunks (nat (n div c)) (nat c) xs)
         else Inl ValueError)
      else if c = - 1 then
        (if 0 < r \<and> n mod r = 0 then Inr (chunks (nat r) (nat (n div r)) xs)
         else Inl ValueError)
      else if r * c = n then Inr (chunks (nat r) (nat c) xs)
      else Inl ValueError)"

text \<open>\<^verbatim>\<open>from_int_list\<close>: reshape to \<open>(height, width)\<close>, then \<^verbatim>\<open>from_state\<close>.\<close>

definition from_int_list :: "int list \<Rightarrow> int \<times> int \<Rightarrow> error + Puzzle" where
  "from_int_list int_list dimension =
     (case np_reshape int_list (snd dimension, fst dimension) of
        Inl e \<Rightarrow> Inl e
      | Inr g \<Rightarrow> from_state g None)"

subsection \<open>Coordinate access\<close>

text \<open>
  An index into an axis of extent \<open>n\<close>: numpy counts a negative index from the end and
  raises \<^verbatim>\<open>IndexError\<close> outside \<open>-n \<le> i < n\<close>.
\<close>

definition np_index :: "nat \<Rightarrow> int \<Rightarrow> error + nat" where
  "np_index n i =
     (if 0 \<le> i \<and> i < int n then Inr (nat i)
      else if - int n \<le> i \<and> i < 0 then Inr (nat (i + int n))
      else Inl IndexError)"

text \<open>\<^verbatim>\<open>__getitem__\<close> and \<^verbatim>\<open>__setitem__\<close>: the cell \<open>(x, y)\<close> is \<^verbatim>\<open>grid[y, x]\<close>.\<close>

definition getitem :: "PuzzleInternalState \<Rightarrow> int \<times> int \<Rightarrow> error + int" where
  "getitem g pos =
     (case np_index (length g) (snd pos) of
        Inl e \<Rightarrow> Inl e
      | Inr r \<Rightarrow>
          (case np_index (length (g ! r)) (fst pos) of
             Inl e \<Rightarrow> Inl e
           | Inr c \<Rightarrow> Inr (g ! r ! c)))"

definition setitem ::
  "PuzzleInternalState \<Rightarrow> int \<times> int \<Rightarrow> int \<Rightarrow> error + PuzzleInternalState" where
  "setitem g key v =
     (case np_index (length g) (snd key) of
        Inl e \<Rightarrow> Inl e
      | Inr r \<Rightarrow>
          (case np_index (length (g ! r)) (fst key) of
             Inl e \<Rightarrow> Inl e
           | Inr c \<Rightarrow> Inr (g[r := (g ! r)[c := v]])))"

subsection \<open>\<^verbatim>\<open>get_moves\<close>\<close>

text \<open>
  The local function \<^verbatim>\<open>cost\<close>; \<open>w\<close>, \<open>h\<close>, \<open>x\<close> and \<open>y\<close> are the variables of the
  enclosing call it reads.
\<close>

definition cost :: "int \<Rightarrow> int \<Rightarrow> int \<Rightarrow> int \<Rightarrow> PuzzleTilePos \<Rightarrow> int" where
  "cost w h x y tile =
     (if w > 2 \<and> ((fst tile = 0 \<and> x = w - 1) \<or> (fst tile = w - 1 \<and> x = 0)) then 2
      else if h > 2 \<and> ((snd tile = 0 \<and> y = h - 1) \<or> (snd tile = h - 1 \<and> y = 0)) then 2
      else 1)"

text \<open>The list \<^verbatim>\<open>laterals\<close> as it stands before the first loop over it.\<close>

definition laterals ::
  "int \<Rightarrow> int \<Rightarrow> int \<Rightarrow> int \<Rightarrow> (PuzzleTilePos \<times> IntDirection2D) list" where
  "laterals w h x y =
     (let top = (x, (y - 1) mod h);
          right = ((x + 1) mod w, y);
          bottom = (x, (y + 1) mod h);
          left = ((x - 1) mod w, y)
      in (if top = bottom then [(top, (0, - 1))]
          else [(top, (0, - 1)), (bottom, (0, 1))]) @
         (if right = left then [(right, (- 1, 0))]
          else [(right, (- 1, 0)), (left, (1, 0))]))"

text \<open>
  The list \<^verbatim>\<open>diagonals\<close>. The four variables \<^verbatim>\<open>d1, d2, dir1, dir2\<close> start as
  \<^verbatim>\<open>None\<close> and are assigned together, so they are one optional value; the second
  corner test overwrites the first. A pair is true in \<^verbatim>\<open>if d1 and d2\<close> whatever its
  components are, so the test asks whether the variables were assigned.
\<close>

definition diagonals ::
  "int \<Rightarrow> int \<Rightarrow> int \<Rightarrow> int \<Rightarrow> (PuzzleTilePos \<times> IntDirection2D) list" where
  "diagonals w h x y =
     (if (h, w) \<noteq> (2, 2) then
        (let ds0 = None;
             ds1 = (if (x, y) = (0, 0) \<or> (x, y) = (w - 1, h - 1)
                    then Some ((((x - 1) mod w, (y - 1) mod h), (1, 1)),
                               (((x + 1) mod w, (y + 1) mod h), (- 1, - 1)))
                    else ds0);
             ds2 = (if (x, y) = (w - 1, 0) \<or> (x, y) = (0, h - 1)
                    then Some ((((x - 1) mod w, (y + 1) mod h), (1, - 1)),
                               (((x + 1) mod w, (y - 1) mod h), (- 1, 1)))
                    else ds1)
         in case ds2 of None \<Rightarrow> [] | Some (m1, m2) \<Rightarrow> [m1, m2])
      else [])"

text \<open>
  \<^verbatim>\<open>get_moves\<close>. Python's \<^verbatim>\<open>%\<close> is floored, as \<open>mod\<close> on \<open>int\<close> is, and raises on a
  zero modulus, which the first branch records (the constructor excludes it).
\<close>

definition get_moves :: "Puzzle \<Rightarrow> error + PuzzleMove list" where
  "get_moves self =
     (case dimensions self of (w, h) \<Rightarrow>
      case tile_pos self of (x, y) \<Rightarrow>
        if h = 0 \<or> w = 0 then Inl ZeroDivisionError
        else Inr (map (\<lambda>t. (cost w h x y (fst t), fst t, snd t)) (laterals w h x y) @
                  map (\<lambda>t. (3, fst t, snd t)) (diagonals w h x y)))"

text \<open>
  A move is lateral when its direction has a zero component (vertical when the \<open>x\<close>
  component is zero, horizontal when the \<open>y\<close> component is), diagonal otherwise.
\<close>

definition is_vertical :: "PuzzleMove \<Rightarrow> bool" where
  "is_vertical m = (fst (snd (snd m)) = 0)"

definition is_horizontal :: "PuzzleMove \<Rightarrow> bool" where
  "is_horizontal m = (snd (snd (snd m)) = 0)"

definition is_lateral :: "PuzzleMove \<Rightarrow> bool" where
  "is_lateral m = (is_vertical m \<or> is_horizontal m)"

definition is_diagonal :: "PuzzleMove \<Rightarrow> bool" where
  "is_diagonal m = (\<not> is_lateral m)"

subsection \<open>\<^verbatim>\<open>compute_move\<close>\<close>

text \<open>
  The local function \<^verbatim>\<open>swap\<close>: the right-hand side reads \<^verbatim>\<open>a[p2]\<close> and \<^verbatim>\<open>a[p1]\<close>,
  then \<^verbatim>\<open>a[p1]\<close> and \<^verbatim>\<open>a[p2]\<close> are written in this order.
\<close>

definition swap ::
  "PuzzleInternalState \<Rightarrow> PuzzleTilePos \<Rightarrow> PuzzleTilePos \<Rightarrow> error + PuzzleInternalState" where
  "swap a p1 p2 =
     (case getitem a p2 of
        Inl e \<Rightarrow> Inl e
      | Inr v2 \<Rightarrow>
          (case getitem a p1 of
             Inl e \<Rightarrow> Inl e
           | Inr v1 \<Rightarrow>
               (case setitem a p1 v2 of
                  Inl e \<Rightarrow> Inl e
                | Inr a' \<Rightarrow> setitem a' p2 v1)))"

text \<open>
  \<^verbatim>\<open>compute_move\<close>: the dimensions are those of \<^verbatim>\<open>self\<close>, the grid that is copied
  and changed is that of \<^verbatim>\<open>from_state\<close>; the source state keeps its grid.
\<close>

definition compute_move :: "Puzzle \<Rightarrow> Puzzle \<Rightarrow> PuzzleMove \<Rightarrow> error + Puzzle" where
  "compute_move self from_st move_to_apply =
     (case dimensions self of (w, h) \<Rightarrow>
      case move_to_apply of (c, tile, direction) \<Rightarrow>
      case tile of (tile_x, tile_y) \<Rightarrow>
        if w = 0 \<or> h = 0 then Inl ZeroDivisionError
        else
          (let new_empty_tile_pos =
                 ((tile_x + fst direction) mod w, (tile_y + snd direction) mod h)
           in case swap (grid from_st) tile new_empty_tile_pos of
                Inl e \<Rightarrow> Inl e
              | Inr computed \<Rightarrow> from_state computed (Some tile)))"

subsection \<open>Equality and hash\<close>

text \<open>
  \<^verbatim>\<open>np.array_equal\<close>: the shapes agree and all cells agree.
\<close>

definition array_equal :: "PuzzleInternalState \<Rightarrow> PuzzleInternalState \<Rightarrow> bool" where
  "array_equal a b =
     (shape0 a = shape0 b \<and> shape1 a = shape1 b \<and> list_all2 (list_all2 (=)) a b)"

text \<open>
  \<^verbatim>\<open>__eq__\<close>: the other operand is any object. The identity test \<^verbatim>\<open>self is o\<close> answers
  \<open>True\<close>, which is also what the comparison of a grid with itself gives, so values
  without identity lose nothing.
\<close>

datatype pyobject = PuzzleObj Puzzle | OtherObj

definition puzzle_eq :: "Puzzle \<Rightarrow> pyobject \<Rightarrow> bool" where
  "puzzle_eq self o' =
     (case o' of
        OtherObj \<Rightarrow> False
      | PuzzleObj q \<Rightarrow> array_equal (grid self) (grid q))"

text \<open>
  \<^verbatim>\<open>__hash__\<close> is \<^verbatim>\<open>hash(str(grid))\<close>: the string form of the array and the hash of a
  string are library functions, taken as parameters.
\<close>

definition puzzle_hash ::
  "(PuzzleInternalState \<Rightarrow> string) \<Rightarrow> (string \<Rightarrow> int) \<Rightarrow> Puzzle \<Rightarrow> int" where
  "puzzle_hash np_str py_hash self = py_hash (np_str (grid self))"

text \<open>
  \<^verbatim>\<open>__ne__\<close> evaluates \<^verbatim>\<open>not __eq__(o)\<close>. The name \<^verbatim>\<open>__eq__\<close> ends in two underscores,
  so it is not a private name of the class; it is no local of the method either, and is
  looked up among the names the module binds at top level and then among the builtins.
\<close>

definition module_globals :: "string list" where
  "module_globals =
     [''__name__'', ''__doc__'', ''__package__'', ''__loader__'', ''__spec__'',
      ''__file__'', ''__cached__'', ''__builtins__'',
      ''copy'', ''List'', ''Tuple'', ''ISolvable'', ''np'', ''PuzzleInternalState'',
      ''PuzzleTilePos'', ''IntDirection2D'', ''PuzzleMove'', ''Puzzle'', ''find_goals'',
      ''parse_puzzle'', ''load_puzzles'']"

text \<open>
  The builtins whose name starts with an underscore; which other names are builtins is
  left open (\<open>is_builtin\<close>).
\<close>

definition builtin_underscore_names :: "string list" where
  "builtin_underscore_names =
     [''__build_class__'', ''__debug__'', ''__doc__'', ''__import__'', ''__loader__'',
      ''__name__'', ''__package__'', ''__spec__'']"

definition lookup_global :: "(string \<Rightarrow> bool) \<Rightarrow> string \<Rightarrow> error + string" where
  "lookup_global is_builtin name =
     (if name \<in> set module_globals then Inr name
      else if name \<in> set builtin_underscore_names then Inr name
      else if take 1 name \<noteq> ''_'' \<and> is_builtin name then Inr name
      else Inl NameError)"

definition puzzle_ne ::
  "(string \<Rightarrow> bool) \<Rightarrow> (pyobject \<Rightarrow> bool) \<Rightarrow> Puzzle \<Rightarrow> pyobject \<Rightarrow> error + bool" where
  "puzzle_ne is_builtin callee self o' =
     (case lookup_global is_builtin ''__eq__'' of
        Inl e \<Rightarrow> Inl e
      | Inr f \<Rightarrow> Inr (\<not> callee o'))"

subsection \<open>\<^verbatim>\<open>find_goals\<close>\<close>

definition arange :: "int \<Rightarrow> int list" where
  "arange n = map int [0..<nat n]"

text \<open>
  The transpose \<^verbatim>\<open>.T\<close> of an array with at least one row: row \<open>j\<close> of the result is
  column \<open>j\<close> of the argument.
\<close>

definition np_transpose :: "'a list list \<Rightarrow> 'a list list" where
  "np_transpose g = map (\<lambda>j. map (\<lambda>row. row ! j) g) [0..<shape1 g]"

definition find_goals :: "Puzzle \<Rightarrow> error + (Puzzle \<times> Puzzle)" where
  "find_goals puzzle =
     (let dim = dimensions puzzle;
          count = fst dim * snd dim
      in case arange count of
           [] \<Rightarrow> Inl IndexError
         | z # rest \<Rightarrow>
             (let lin = rest @ [z] in
              case np_reshape lin (snd dim, fst dim) of
                Inl e \<Rightarrow> Inl e
              | Inr goal1 \<Rightarrow>
                  (case np_reshape lin (fst dim, snd dim) of
                     Inl e \<Rightarrow> Inl e
                   | Inr g2 \<Rightarrow>
                       (let goal2 = np_transpose g2 in
                        case from_state goal1 None of
                          Inl e \<Rightarrow> Inl e
                        | Inr p1 \<Rightarrow>
                            (case from_state goal2 None of
                               Inl e \<Rightarrow> Inl e
                             | Inr p2 \<Rightarrow> Inr (p1, p2))))))"

subsection \<open>The order of moves as the specification words it\<close>

text \<open>
  This definition follows the specification, not the source: lateral moves in the order
  top, bottom, left, right, an axis of size two contributing one entry (labelled top,
  resp. right), then the diagonal moves. It is compared with \<^verbatim>\<open>get_moves\<close> below.
\<close>

definition spec_lateral_order ::
  "int \<Rightarrow> int \<Rightarrow> int \<Rightarrow> int \<Rightarrow> (PuzzleTilePos \<times> IntDirection2D) list" where
  "spec_lateral_order w h x y =
     (if h = 2 then [((x, (y - 1) mod h), (0, - 1))]
      else [((x, (y - 1) mod h), (0, - 1)), ((x, (y + 1) mod h), (0, 1))]) @
     (if w = 2 then [(((x + 1) mod w, y), (- 1, 0))]
      else [(((x - 1) mod w, y), (1, 0)), (((x + 1) mod w, y), (- 1, 0))])"

definition spec_moves_order :: "int \<Rightarrow> int \<Rightarrow> int \<Rightarrow> int \<Rightarrow> PuzzleMove list" where
  "spec_moves_order w h x y =
     map (\<lambda>t. (cost w h x y (fst t), fst t, snd t)) (spec_lateral_order w h x y) @
     map (\<lambda>t. (3, fst t, snd t)) (diagonals w h x y)"

subsection \<open>Notions used to state the properties\<close>

text \<open>
  A coordinate inside the grid, the cell it addresses and the grid with that cell replaced.
  These are not functions of the source; the lemmas relate \<open>getitem\<close> and \<open>setitem\<close> to them.
\<close>

definition in_grid :: "'a list list \<Rightarrow> int \<times> int \<Rightarrow> bool" where
  "in_grid g pos =
     (0 \<le> snd pos \<and> nat (snd pos) < length g \<and>
      0 \<le> fst pos \<and> nat (fst pos) < length (g ! nat (snd pos)))"

definition cell :: "'a list list \<Rightarrow> int \<times> int \<Rightarrow> 'a" where
  "cell g pos = g ! nat (snd pos) ! nat (fst pos)"

definition put :: "'a list list \<Rightarrow> int \<times> int \<Rightarrow> 'a \<Rightarrow> 'a list list" where
  "put g pos v = g[nat (snd pos) := (g ! nat (snd pos))[nat (fst pos) := v]]"

text \<open>
  The invariant the specification gives for a state, as far as the shape goes: the grid is
  an array, the dimensions are those of its shape and are at least 2, and the cached
  position of the empty cell is inside the grid. Every state built by \<^verbatim>\<open>from_state\<close> from an
  array satisfies it.
\<close>

definition consistent :: "Puzzle \<Rightarrow> bool" where
  "consistent s =
     (is_array2d (grid s) \<and>
      dimensions s = (int (shape1 (grid s)), int (shape0 (grid s))) \<and>
      2 \<le> fst (dimensions s) \<and> 2 \<le> snd (dimensions s) \<and>
      in_grid (grid s) (tile_pos s))"

section \<open>Locating a tile\<close>

lemma locate_row_None: "locate_row row tile x = None \<longleftrightarrow> tile \<notin> set row"
  by (induction row arbitrary: x) auto

lemma locate_row_Some:
  "locate_row row tile x = Some r \<Longrightarrow>
     x \<le> r \<and> nat (r - x) < length row \<and> row ! nat (r - x) = tile \<and>
     (\<forall>k < nat (r - x). row ! k \<noteq> tile)"
proof (induction row arbitrary: x)
  case Nil
  then show ?case by simp
next
  case (Cons t row)
  show ?case
  proof (cases "t = tile")
    case True
    with Cons.prems show ?thesis by simp
  next
    case False
    with Cons.prems have rec: "locate_row row tile (x + 1) = Some r" by simp
    from Cons.IH [OF rec]
    have le: "x + 1 \<le> r" and len: "nat (r - (x + 1)) < length row"
      and hit: "row ! nat (r - (x + 1)) = tile"
      and first: "\<forall>k < nat (r - (x + 1)). row ! k \<noteq> tile"
      by auto
    from le have suc: "nat (r - x) = Suc (nat (r - (x + 1)))" by simp
    have "\<forall>k < nat (r - x). (t # row) ! k \<noteq> tile"
    proof (intro allI impI)
      fix k assume "k < nat (r - x)"
      with suc first False show "(t # row) ! k \<noteq> tile"
        by (cases k) auto
    qed
    with le len hit suc show ?thesis by simp
  qed
qed

lemma locate_rows_TileNotFound:
  "locate_rows g tile y = Inl e \<longleftrightarrow> e = TileNotFound \<and> (\<forall>row \<in> set g. tile \<notin> set row)"
proof (induction g arbitrary: y)
  case Nil
  then show ?case by auto
next
  case (Cons row rows)
  show ?case
  proof (cases "locate_row row tile 0")
    case None
    then have "tile \<notin> set row" by (simp add: locate_row_None)
    with None Cons.IH [of "y + 1"] show ?thesis by simp
  next
    case (Some x)
    then have "tile \<in> set row" using locate_row_None [of row tile 0] by auto
    with Some show ?thesis by auto
  qed
qed

lemma locate_rows_Inr:
  "locate_rows g tile y = Inr (c, r) \<Longrightarrow>
     y \<le> r \<and> nat (r - y) < length g \<and> 0 \<le> c \<and> nat c < length (g ! nat (r - y)) \<and>
     g ! nat (r - y) ! nat c = tile \<and>
     (\<forall>k < nat c. g ! nat (r - y) ! k \<noteq> tile) \<and>
     (\<forall>j < nat (r - y). tile \<notin> set (g ! j))"
proof (induction g arbitrary: y)
  case Nil
  then show ?case by simp
next
  case (Cons row rows)
  show ?case
  proof (cases "locate_row row tile 0")
    case (Some x)
    with Cons.prems have eq: "x = c" "y = r" by simp_all
    from locate_row_Some [OF Some] eq show ?thesis by simp
  next
    case None
    with Cons.prems have rec: "locate_rows rows tile (y + 1) = Inr (c, r)" by simp
    from None have miss: "tile \<notin> set row" by (simp add: locate_row_None)
    from Cons.IH [OF rec]
    have le: "y + 1 \<le> r" and len: "nat (r - (y + 1)) < length rows"
      and c0: "0 \<le> c" and clen: "nat c < length (rows ! nat (r - (y + 1)))"
      and hit: "rows ! nat (r - (y + 1)) ! nat c = tile"
      and firstc: "\<forall>k < nat c. rows ! nat (r - (y + 1)) ! k \<noteq> tile"
      and firstr: "\<forall>j < nat (r - (y + 1)). tile \<notin> set (rows ! j)"
      by auto
    from le have suc: "nat (r - y) = Suc (nat (r - (y + 1)))" by simp
    have "\<forall>j < nat (r - y). tile \<notin> set ((row # rows) ! j)"
    proof (intro allI impI)
      fix j assume "j < nat (r - y)"
      with suc firstr miss show "tile \<notin> set ((row # rows) ! j)"
        by (cases j) auto
    qed
    with le len c0 clen hit firstc suc show ?thesis by simp
  qed
qed

section \<open>Construction and lookup failures\<close>

text \<open>
  Claim C7. The constructor fails, with the invalid-dimensions error and no other,
  exactly when the width or the height is below 2. \<^verbatim>\<open>locate_tile\<close> fails, with the
  not-found error and no other, exactly when no cell of the grid holds the value; when it
  returns \<open>(x, y)\<close>, that cell holds the value, no earlier cell of row \<open>y\<close> does, and no
  earlier row contains the value: the first match in row-major order.
\<close>

theorem C7_construction_and_locate_failures:
  "(Puzzle_init g (w, h) p = Inl ValueError \<longleftrightarrow> w < 2 \<or> h < 2) \<and>
   (\<forall>e. Puzzle_init g (w, h) p = Inl e \<longrightarrow> e = ValueError) \<and>
   (locate_tile state tile = Inl TileNotFound \<longleftrightarrow> (\<forall>row \<in> set state. tile \<notin> set row)) \<and>
   (\<forall>e. locate_tile state tile = Inl e \<longrightarrow> e = TileNotFound) \<and>
   (\<forall>x y. locate_tile state tile = Inr (x, y) \<longrightarrow>
      0 \<le> x \<and> 0 \<le> y \<and> nat y < length state \<and> nat x < length (state ! nat y) \<and>
      state ! nat y ! nat x = tile \<and>
      (\<forall>k < nat x. state ! nat y ! k \<noteq> tile) \<and>
      (\<forall>j < nat y. tile \<notin> set (state ! j)))"
proof -
  have init1: "Puzzle_init g (w, h) p = Inl ValueError \<longleftrightarrow> w < 2 \<or> h < 2"
    by (simp add: Puzzle_init_def)
  have init2: "\<forall>e. Puzzle_init g (w, h) p = Inl e \<longrightarrow> e = ValueError"
    by (simp add: Puzzle_init_def)
  have loc1: "locate_tile state tile = Inl TileNotFound \<longleftrightarrow>
      (\<forall>row \<in> set state. tile \<notin> set row)"
    by (simp add: locate_tile_def locate_rows_TileNotFound)
  have loc2: "\<forall>e. locate_tile state tile = Inl e \<longrightarrow> e = TileNotFound"
    by (simp add: locate_tile_def locate_rows_TileNotFound)
  have loc3: "\<forall>x y. locate_tile state tile = Inr (x, y) \<longrightarrow>
      0 \<le> x \<and> 0 \<le> y \<and> nat y < length state \<and> nat x < length (state ! nat y) \<and>
      state ! nat y ! nat x = tile \<and>
      (\<forall>k < nat x. state ! nat y ! k \<noteq> tile) \<and>
      (\<forall>j < nat y. tile \<notin> set (state ! j))"
  proof (intro allI impI)
    fix x y assume "locate_tile state tile = Inr (x, y)"
    then have "locate_rows state tile 0 = Inr (x, y)" by (simp add: locate_tile_def)
    from locate_rows_Inr [OF this]
    show "0 \<le> x \<and> 0 \<le> y \<and> nat y < length state \<and> nat x < length (state ! nat y) \<and>
      state ! nat y ! nat x = tile \<and>
      (\<forall>k < nat x. state ! nat y ! k \<noteq> tile) \<and>
      (\<forall>j < nat y. tile \<notin> set (state ! j))" by simp
  qed
  from init1 init2 loc1 loc2 loc3 show ?thesis by blast
qed

theorem C7_construction_and_locate_failures_witness:
  "Puzzle_init [[1, 2], [0, 3]] (1, 2) (0, 1) = Inl ValueError \<and>
   locate_tile [[1, 2, 3], [4, 0, 5], [6, 0, 8]] 0 = Inr (1, 1) \<and>
   [[1, 2, 3], [4, 0, 5], [6, 0, 8]] ! nat 1 ! nat 1 = (0::int) \<and>
   locate_tile [[1, 2], [3, 4]] 0 = Inl TileNotFound"
  using C7_construction_and_locate_failures
    [of "[[1, 2], [0, 3]]" 1 2 "(0, 1)" "[[1, 2, 3], [4, 0, 5], [6, 0, 8]]" 0]
  by (simp add: Puzzle_init_def locate_tile_def)

section \<open>Move enumeration\<close>

lemma Puzzle_init_Inr:
  "Puzzle_init g d p = Inr S \<Longrightarrow>
     dimensions S = d \<and> grid S = g \<and> tile_pos S = p \<and> 2 \<le> fst d \<and> 2 \<le> snd d"
  by (auto simp: Puzzle_init_def split: if_splits)

lemma get_moves_constructed:
  assumes "Puzzle_init g (w, h) (x, y) = Inr S"
  shows "get_moves S =
     Inr (map (\<lambda>t. (cost w h x y (fst t), fst t, snd t)) (laterals w h x y) @
          map (\<lambda>t. (3, fst t, snd t)) (diagonals w h x y))"
  using Puzzle_init_Inr [OF assms] by (simp add: get_moves_def)

lemma wrap_neighbours_coincide:
  fixes n :: int
  assumes "2 \<le> n"
  shows "(a - 1) mod n = (a + 1) mod n \<longleftrightarrow> n = 2"
proof
  assume "(a - 1) mod n = (a + 1) mod n"
  then have "n dvd (a + 1) - (a - 1)" by (metis mod_eq_dvd_iff)
  then have "n dvd 2" by simp
  then have "n \<le> 2" by (rule zdvd_imp_le) simp
  with assms show "n = 2" by simp
next
  assume "n = 2"
  then show "(a - 1) mod n = (a + 1) mod n" by presburger
qed

lemma laterals_order:
  assumes "2 \<le> w" "2 \<le> h"
  shows "laterals w h x y =
     [((x, (y - 1) mod h), (0, - 1))] @
     (if h = 2 then [] else [((x, (y + 1) mod h), (0, 1))]) @
     [(((x + 1) mod w, y), (- 1, 0))] @
     (if w = 2 then [] else [(((x - 1) mod w, y), (1, 0))])"
proof -
  have v: "(y - 1) mod h = (y + 1) mod h \<longleftrightarrow> h = 2"
    using assms(2) by (rule wrap_neighbours_coincide)
  have hz: "(x + 1) mod w = (x - 1) mod w \<longleftrightarrow> w = 2"
    using wrap_neighbours_coincide [OF assms(1), of x] by auto
  show ?thesis
    unfolding laterals_def Let_def using v hz by simp
qed

lemma diagonals_cases:
  "diagonals w h x y =
     (if (h, w) = (2, 2) then []
      else if (x, y) = (w - 1, 0) \<or> (x, y) = (0, h - 1)
      then [(((x - 1) mod w, (y + 1) mod h), (1, - 1)),
            (((x + 1) mod w, (y - 1) mod h), (- 1, 1))]
      else if (x, y) = (0, 0) \<or> (x, y) = (w - 1, h - 1)
      then [(((x - 1) mod w, (y - 1) mod h), (1, 1)),
            (((x + 1) mod w, (y + 1) mod h), (- 1, - 1))]
      else [])"
  unfolding diagonals_def Let_def by simp

lemma laterals_lateral:
  "(p, d) \<in> set (laterals w h x y) \<Longrightarrow> is_lateral (c, p, d)"
  unfolding laterals_def Let_def is_lateral_def is_vertical_def is_horizontal_def
  by (auto split: if_splits)

lemma diagonals_diagonal:
  "(p, d) \<in> set (diagonals w h x y) \<Longrightarrow> is_diagonal (c, p, d)"
  unfolding diagonals_cases is_diagonal_def is_lateral_def is_vertical_def is_horizontal_def
  by (auto split: if_splits)

lemma filter_lateral_moves:
  "filter is_lateral
     (map (\<lambda>t. (cost w h x y (fst t), fst t, snd t)) (laterals w h x y) @
      map (\<lambda>t. (3, fst t, snd t)) (diagonals w h x y)) =
   map (\<lambda>t. (cost w h x y (fst t), fst t, snd t)) (laterals w h x y)"
proof -
  have a: "filter is_lateral (map (\<lambda>t. (cost w h x y (fst t), fst t, snd t)) (laterals w h x y))
      = map (\<lambda>t. (cost w h x y (fst t), fst t, snd t)) (laterals w h x y)"
    by (rule filter_True) (auto simp: laterals_lateral)
  have b: "filter is_lateral (map (\<lambda>t. (3, fst t, snd t)) (diagonals w h x y)) = []"
    using diagonals_diagonal [of _ _ w h x y 3]
    by (auto simp: filter_empty_conv is_diagonal_def)
  from a b show ?thesis by simp
qed

lemma filter_diagonal_moves:
  "filter is_diagonal
     (map (\<lambda>t. (cost w h x y (fst t), fst t, snd t)) (laterals w h x y) @
      map (\<lambda>t. (3, fst t, snd t)) (diagonals w h x y)) =
   map (\<lambda>t. (3, fst t, snd t)) (diagonals w h x y)"
proof -
  have a: "filter is_diagonal (map (\<lambda>t. (cost w h x y (fst t), fst t, snd t)) (laterals w h x y))
      = []"
    using laterals_lateral [of _ _ w h x y]
    by (auto simp: filter_empty_conv is_diagonal_def)
  have b: "filter is_diagonal (map (\<lambda>t. (3, fst t, snd t)) (diagonals w h x y))
      = map (\<lambda>t. (3, fst t, snd t)) (diagonals w h x y)"
    by (rule filter_True) (auto simp: diagonals_diagonal)
  from a b show ?thesis by simp
qed

subsection \<open>Cost of lateral moves\<close>

text \<open>
  Claim C3. For every state the constructor accepts, a lateral move returned by
  \<^verbatim>\<open>get_moves\<close> costs 2 exactly when the width is above 2 and the tile and the empty
  cell sit in columns \<open>0\<close> and \<open>w - 1\<close> (either way round), or the height is above 2 and
  they sit in rows \<open>0\<close> and \<open>h - 1\<close>; it costs 1 otherwise. On a 4 by 4 grid with the empty
  cell at \<open>(0, 0)\<close> the left neighbour \<open>(3, 0)\<close> and the top neighbour \<open>(0, 3)\<close> cost 2.
\<close>

theorem C3_lateral_cost:
  assumes "Puzzle_init g (w, h) (x, y) = Inr S"
  shows "\<exists>ms. get_moves S = Inr ms \<and>
     (\<forall>c tx ty d. (c, (tx, ty), d) \<in> set ms \<and> is_lateral (c, (tx, ty), d) \<longrightarrow>
        (c = 2 \<longleftrightarrow>
           (w > 2 \<and> ((tx = 0 \<and> x = w - 1) \<or> (tx = w - 1 \<and> x = 0))) \<or>
           (h > 2 \<and> ((ty = 0 \<and> y = h - 1) \<or> (ty = h - 1 \<and> y = 0)))) \<and>
        (c \<noteq> 2 \<longrightarrow> c = 1)) \<and>
     ((w, h) = (4, 4) \<and> (x, y) = (0, 0) \<longrightarrow>
        filter is_lateral ms =
          [(2, (0, 3), (0, - 1)), (1, (0, 1), (0, 1)), (1, (1, 0), (- 1, 0)),
           (2, (3, 0), (1, 0))])"
proof -
  let ?lat = "map (\<lambda>t. (cost w h x y (fst t), fst t, snd t)) (laterals w h x y)"
  let ?dia = "map (\<lambda>t. (3, fst t, snd t)) (diagonals w h x y)"
  have gm: "get_moves S = Inr (?lat @ ?dia)"
    using assms by (rule get_moves_constructed)
  have costs: "\<forall>c tx ty d. (c, (tx, ty), d) \<in> set (?lat @ ?dia) \<and> is_lateral (c, (tx, ty), d) \<longrightarrow>
        (c = 2 \<longleftrightarrow>
           (w > 2 \<and> ((tx = 0 \<and> x = w - 1) \<or> (tx = w - 1 \<and> x = 0))) \<or>
           (h > 2 \<and> ((ty = 0 \<and> y = h - 1) \<or> (ty = h - 1 \<and> y = 0)))) \<and>
        (c \<noteq> 2 \<longrightarrow> c = 1)"
  proof (intro allI impI)
    fix c tx ty d
    assume a: "(c, (tx, ty), d) \<in> set (?lat @ ?dia) \<and> is_lateral (c, (tx, ty), d)"
    then have "(c, (tx, ty), d) \<in> set (filter is_lateral (?lat @ ?dia))" by simp
    then have "(c, (tx, ty), d) \<in> set ?lat" by (simp only: filter_lateral_moves)
    then have c: "c = cost w h x y (tx, ty)" by auto
    show "(c = 2 \<longleftrightarrow>
           (w > 2 \<and> ((tx = 0 \<and> x = w - 1) \<or> (tx = w - 1 \<and> x = 0))) \<or>
           (h > 2 \<and> ((ty = 0 \<and> y = h - 1) \<or> (ty = h - 1 \<and> y = 0)))) \<and>
        (c \<noteq> 2 \<longrightarrow> c = 1)"
      unfolding c cost_def by simp
  qed
  have ex: "(w, h) = (4, 4) \<and> (x, y) = (0, 0) \<longrightarrow>
        filter is_lateral (?lat @ ?dia) =
          [(2, (0, 3), (0, - 1)), (1, (0, 1), (0, 1)), (1, (1, 0), (- 1, 0)),
           (2, (3, 0), (1, 0))]"
    unfolding filter_lateral_moves by (simp add: laterals_order cost_def)
  from gm costs ex show ?thesis by blast
qed

theorem C3_lateral_cost_witness:
  "Puzzle_init [[0, 1, 2, 3], [4, 5, 6, 7], [8, 9, 10, 11], [12, 13, 14, 15]] (4, 4) (0, 0) =
     Inr \<lparr>dimensions = (4, 4),
       grid = [[0, 1, 2, 3], [4, 5, 6, 7], [8, 9, 10, 11], [12, 13, 14, 15]],
       tile_pos = (0, 0)\<rparr> \<and>
   get_moves \<lparr>dimensions = (4, 4),
      grid = [[0, 1, 2, 3], [4, 5, 6, 7], [8, 9, 10, 11], [12, 13, 14, 15]],
      tile_pos = (0, 0)\<rparr> =
   Inr [(2, (0, 3), (0, - 1)), (1, (0, 1), (0, 1)), (1, (1, 0), (- 1, 0)),
        (2, (3, 0), (1, 0)), (3, (3, 3), (1, 1)), (3, (1, 1), (- 1, - 1))]"
  using C3_lateral_cost [of "[[0, 1, 2, 3], [4, 5, 6, 7], [8, 9, 10, 11], [12, 13, 14, 15]]" 4 4 0 0
      "\<lparr>dimensions = (4, 4),
        grid = [[0, 1, 2, 3], [4, 5, 6, 7], [8, 9, 10, 11], [12, 13, 14, 15]],
        tile_pos = (0, 0)\<rparr>"]
  by (simp add: Puzzle_init_def get_moves_def laterals_def diagonals_def cost_def Let_def)

subsection \<open>Diagonal moves\<close>

text \<open>
  Claim C4. For every state the constructor accepts: when the grid is not 2 by 2 and the
  empty cell is at one of the four corners, \<^verbatim>\<open>get_moves\<close> returns exactly two diagonal
  moves, each of cost 3; when the empty cell is at no corner, or the grid is 2 by 2, it
  returns no diagonal move.
\<close>

theorem C4_diagonal_moves:
  assumes "Puzzle_init g (w, h) (x, y) = Inr S"
  shows "\<exists>ms. get_moves S = Inr ms \<and>
     ((w, h) \<noteq> (2, 2) \<and> (x, y) \<in> {(0, 0), (w - 1, 0), (0, h - 1), (w - 1, h - 1)} \<longrightarrow>
        length (filter is_diagonal ms) = 2 \<and>
        (\<forall>m \<in> set (filter is_diagonal ms). fst m = 3)) \<and>
     ((x, y) \<notin> {(0, 0), (w - 1, 0), (0, h - 1), (w - 1, h - 1)} \<or> (w, h) = (2, 2) \<longrightarrow>
        filter is_diagonal ms = [])"
proof -
  let ?lat = "map (\<lambda>t. (cost w h x y (fst t), fst t, snd t)) (laterals w h x y)"
  let ?dia = "map (\<lambda>t. (3::int, fst t, snd t)) (diagonals w h x y)"
  have gm: "get_moves S = Inr (?lat @ ?dia)"
    using assms by (rule get_moves_constructed)
  have fd: "filter is_diagonal (?lat @ ?dia) = ?dia"
    by (rule filter_diagonal_moves)
  have corner: "(w, h) \<noteq> (2, 2) \<and> (x, y) \<in> {(0, 0), (w - 1, 0), (0, h - 1), (w - 1, h - 1)} \<longrightarrow>
        length (filter is_diagonal (?lat @ ?dia)) = 2 \<and>
        (\<forall>m \<in> set (filter is_diagonal (?lat @ ?dia)). fst m = 3)"
    unfolding fd by (auto simp: diagonals_cases)
  have other: "(x, y) \<notin> {(0, 0), (w - 1, 0), (0, h - 1), (w - 1, h - 1)} \<or> (w, h) = (2, 2) \<longrightarrow>
        filter is_diagonal (?lat @ ?dia) = []"
    unfolding fd by (auto simp: diagonals_cases)
  from gm corner other show ?thesis by blast
qed

theorem C4_diagonal_moves_witness:
  "Puzzle_init [[1, 2, 0], [3, 4, 5]] (3, 2) (2, 0) =
     Inr \<lparr>dimensions = (3, 2), grid = [[1, 2, 0], [3, 4, 5]], tile_pos = (2, 0)\<rparr> \<and>
   get_moves \<lparr>dimensions = (3, 2), grid = [[1, 2, 0], [3, 4, 5]], tile_pos = (2, 0)\<rparr> =
     Inr [(1, (2, 1), (0, - 1)), (2, (0, 0), (- 1, 0)), (1, (1, 0), (1, 0)),
          (3, (1, 1), (1, - 1)), (3, (0, 1), (- 1, 1))]"
  using C4_diagonal_moves [of "[[1, 2, 0], [3, 4, 5]]" 3 2 2 0
      "\<lparr>dimensions = (3, 2), grid = [[1, 2, 0], [3, 4, 5]], tile_pos = (2, 0)\<rparr>"]
  by (simp add: Puzzle_init_def get_moves_def laterals_def diagonals_def cost_def Let_def)

lemma filter_vertical_laterals:
  assumes "2 \<le> w" "2 \<le> h"
  shows "filter is_vertical
     (map (\<lambda>t. (cost w h x y (fst t), fst t, snd t)) (laterals w h x y) @
      map (\<lambda>t. (3, fst t, snd t)) (diagonals w h x y)) =
     (cost w h x y (x, (y - 1) mod h), (x, (y - 1) mod h), (0, - 1)) #
     (if h = 2 then [] else [(cost w h x y (x, (y + 1) mod h), (x, (y + 1) mod h), (0, 1))])"
  by (simp add: laterals_order [OF assms] diagonals_cases is_vertical_def)

lemma filter_horizontal_laterals:
  assumes "2 \<le> w" "2 \<le> h"
  shows "filter is_horizontal
     (map (\<lambda>t. (cost w h x y (fst t), fst t, snd t)) (laterals w h x y) @
      map (\<lambda>t. (3, fst t, snd t)) (diagonals w h x y)) =
     (cost w h x y ((x + 1) mod w, y), ((x + 1) mod w, y), (- 1, 0)) #
     (if w = 2 then [] else [(cost w h x y ((x - 1) mod w, y), ((x - 1) mod w, y), (1, 0))])"
  by (simp add: laterals_order [OF assms] diagonals_cases is_horizontal_def)

subsection \<open>Axes of size two\<close>

text \<open>
  Claim C5. For every state the constructor accepts: when the height is 2, the top and
  bottom neighbours coincide and \<^verbatim>\<open>get_moves\<close> returns exactly one vertical lateral move,
  the top neighbour with direction \<open>(0, -1)\<close>; when the width is 2, the right and left
  neighbours coincide and it returns exactly one horizontal lateral move, the right
  neighbour with direction \<open>(-1, 0)\<close>. On a grid of width 2 and height 3 with the empty cell
  at \<open>(0, 0)\<close> there is one horizontal lateral move and there are two distinct vertical ones.
\<close>

theorem C5_degenerate_axes:
  assumes "Puzzle_init g (w, h) (x, y) = Inr S"
  shows "\<exists>ms. get_moves S = Inr ms \<and>
     (h = 2 \<longrightarrow> (\<exists>c. filter is_vertical ms = [(c, (x, (y - 1) mod h), (0, - 1))]) \<and>
        (y - 1) mod h = (y + 1) mod h) \<and>
     (w = 2 \<longrightarrow> (\<exists>c. filter is_horizontal ms = [(c, ((x + 1) mod w, y), (- 1, 0))]) \<and>
        (x + 1) mod w = (x - 1) mod w) \<and>
     ((w, h) = (2, 3) \<and> (x, y) = (0, 0) \<longrightarrow>
        filter is_horizontal ms = [(1, (1, 0), (- 1, 0))] \<and>
        filter is_vertical ms = [(2, (0, 2), (0, - 1)), (1, (0, 1), (0, 1))])"
proof -
  let ?ms = "map (\<lambda>t. (cost w h x y (fst t), fst t, snd t)) (laterals w h x y) @
      map (\<lambda>t. (3::int, fst t, snd t)) (diagonals w h x y)"
  from Puzzle_init_Inr [OF assms] have w2: "2 \<le> w" and h2: "2 \<le> h" by simp_all
  have gm: "get_moves S = Inr ?ms"
    using assms by (rule get_moves_constructed)
  have v: "h = 2 \<longrightarrow> (\<exists>c. filter is_vertical ?ms = [(c, (x, (y - 1) mod h), (0, - 1))]) \<and>
        (y - 1) mod h = (y + 1) mod h"
    unfolding filter_vertical_laterals [OF w2 h2]
    using wrap_neighbours_coincide [OF h2, of y] by auto
  have hz: "w = 2 \<longrightarrow> (\<exists>c. filter is_horizontal ?ms = [(c, ((x + 1) mod w, y), (- 1, 0))]) \<and>
        (x + 1) mod w = (x - 1) mod w"
    unfolding filter_horizontal_laterals [OF w2 h2]
    using wrap_neighbours_coincide [OF w2, of x] by auto
  have ex: "(w, h) = (2, 3) \<and> (x, y) = (0, 0) \<longrightarrow>
        filter is_horizontal ?ms = [(1, (1, 0), (- 1, 0))] \<and>
        filter is_vertical ?ms = [(2, (0, 2), (0, - 1)), (1, (0, 1), (0, 1))]"
    unfolding filter_horizontal_laterals [OF w2 h2] filter_vertical_laterals [OF w2 h2]
    by (simp add: cost_def)
  from gm v hz ex show ?thesis by blast
qed

theorem C5_degenerate_axes_witness:
  "Puzzle_init [[0, 1], [2, 3], [4, 5]] (2, 3) (0, 0) =
     Inr \<lparr>dimensions = (2, 3), grid = [[0, 1], [2, 3], [4, 5]], tile_pos = (0, 0)\<rparr> \<and>
   get_moves \<lparr>dimensions = (2, 3), grid = [[0, 1], [2, 3], [4, 5]], tile_pos = (0, 0)\<rparr> =
     Inr [(2, (0, 2), (0, - 1)), (1, (0, 1), (0, 1)), (1, (1, 0), (- 1, 0)),
          (3, (1, 2), (1, 1)), (3, (1, 1), (- 1, - 1))]"
  using C5_degenerate_axes [of "[[0, 1], [2, 3], [4, 5]]" 2 3 0 0
      "\<lparr>dimensions = (2, 3), grid = [[0, 1], [2, 3], [4, 5]], tile_pos = (0, 0)\<rparr>"]
  by (simp add: Puzzle_init_def get_moves_def laterals_def diagonals_def cost_def Let_def)

subsection \<open>Order of the moves\<close>

text \<open>
  Claim C6 states the lateral order top, bottom, left, right. The source appends the right
  neighbour before the left one: on a 3 by 3 grid with the empty cell in the middle the
  third move is the right neighbour \<open>(2, 1)\<close> and the fourth the left neighbour \<open>(0, 1)\<close>,
  so the list differs from the one in the stated order.
\<close>

theorem C6_move_order_counterexample:
  "Puzzle_init [[1, 2, 3], [4, 0, 5], [6, 7, 8]] (3, 3) (1, 1) =
     Inr \<lparr>dimensions = (3, 3), grid = [[1, 2, 3], [4, 0, 5], [6, 7, 8]], tile_pos = (1, 1)\<rparr> \<and>
   get_moves \<lparr>dimensions = (3, 3), grid = [[1, 2, 3], [4, 0, 5], [6, 7, 8]], tile_pos = (1, 1)\<rparr> =
     Inr [(1, (1, 0), (0, - 1)), (1, (1, 2), (0, 1)), (1, (2, 1), (- 1, 0)), (1, (0, 1), (1, 0))] \<and>
   spec_moves_order 3 3 1 1 =
     [(1, (1, 0), (0, - 1)), (1, (1, 2), (0, 1)), (1, (0, 1), (1, 0)), (1, (2, 1), (- 1, 0))] \<and>
   get_moves \<lparr>dimensions = (3, 3), grid = [[1, 2, 3], [4, 0, 5], [6, 7, 8]], tile_pos = (1, 1)\<rparr> \<noteq>
     Inr (spec_moves_order 3 3 1 1)"
  by (simp add: Puzzle_init_def get_moves_def laterals_def diagonals_def cost_def Let_def
      spec_moves_order_def spec_lateral_order_def)

lemma diagonals_by_corner:
  assumes w2: "2 \<le> w" and h2: "2 \<le> h"
  shows "diagonals w h x y =
       (if (w, h) = (2, 2) then []
        else if (x, y) = (0, 0) \<or> (x, y) = (w - 1, h - 1)
        then [(((x - 1) mod w, (y - 1) mod h), (1, 1)),
              (((x + 1) mod w, (y + 1) mod h), (- 1, - 1))]
        else if (x, y) = (w - 1, 0) \<or> (x, y) = (0, h - 1)
        then [(((x - 1) mod w, (y + 1) mod h), (1, - 1)),
              (((x + 1) mod w, (y - 1) mod h), (- 1, 1))]
        else [])"
proof -
  define A where "A \<longleftrightarrow> (x, y) = (0, 0) \<or> (x, y) = (w - 1, h - 1)"
  define B where "B \<longleftrightarrow> (x, y) = (w - 1, 0) \<or> (x, y) = (0, h - 1)"
  have excl: "\<not> (A \<and> B)"
    unfolding A_def B_def using w2 h2 by auto
  have dims: "(h, w) = (2, 2) \<longleftrightarrow> (w, h) = (2, 2)" by auto
  show ?thesis
    unfolding diagonals_cases dims A_def [symmetric] B_def [symmetric]
    using excl by (cases A; cases B; simp)
qed

text \<open>
  Claim C6, amended. For every state the constructor accepts, the list returned by
  \<^verbatim>\<open>get_moves\<close> is its lateral moves followed by its diagonal moves; the lateral moves
  come in the order top, bottom (absent when the height is 2), right, left (absent when
  the width is 2); the diagonal moves, when there are any, come in the order written in
  the source for the corner the empty cell is in.
\<close>

theorem C6_move_order:
  assumes "Puzzle_init g (w, h) (x, y) = Inr S"
  shows "\<exists>ms. get_moves S = Inr ms \<and>
     ms = filter is_lateral ms @ filter is_diagonal ms \<and>
     map snd (filter is_lateral ms) =
       [((x, (y - 1) mod h), (0, - 1))] @
       (if h = 2 then [] else [((x, (y + 1) mod h), (0, 1))]) @
       [(((x + 1) mod w, y), (- 1, 0))] @
       (if w = 2 then [] else [(((x - 1) mod w, y), (1, 0))]) \<and>
     map snd (filter is_diagonal ms) =
       (if (w, h) = (2, 2) then []
        else if (x, y) = (0, 0) \<or> (x, y) = (w - 1, h - 1)
        then [(((x - 1) mod w, (y - 1) mod h), (1, 1)),
              (((x + 1) mod w, (y + 1) mod h), (- 1, - 1))]
        else if (x, y) = (w - 1, 0) \<or> (x, y) = (0, h - 1)
        then [(((x - 1) mod w, (y + 1) mod h), (1, - 1)),
              (((x + 1) mod w, (y - 1) mod h), (- 1, 1))]
        else [])"
proof -
  let ?lat = "map (\<lambda>t. (cost w h x y (fst t), fst t, snd t)) (laterals w h x y)"
  let ?dia = "map (\<lambda>t. (3::int, fst t, snd t)) (diagonals w h x y)"
  from Puzzle_init_Inr [OF assms] have w2: "2 \<le> w" and h2: "2 \<le> h" by simp_all
  have gm: "get_moves S = Inr (?lat @ ?dia)"
    using assms by (rule get_moves_constructed)
  have fl: "filter is_lateral (?lat @ ?dia) = ?lat" by (rule filter_lateral_moves)
  have fd: "filter is_diagonal (?lat @ ?dia) = ?dia" by (rule filter_diagonal_moves)
  have split: "?lat @ ?dia = filter is_lateral (?lat @ ?dia) @ filter is_diagonal (?lat @ ?dia)"
    unfolding fl fd ..
  have msl: "map snd ?lat = laterals w h x y" by (simp add: comp_def)
  have msd: "map snd ?dia = diagonals w h x y" by (simp add: comp_def)
  have lat: "map snd (filter is_lateral (?lat @ ?dia)) =
       [((x, (y - 1) mod h), (0, - 1))] @
       (if h = 2 then [] else [((x, (y + 1) mod h), (0, 1))]) @
       [(((x + 1) mod w, y), (- 1, 0))] @
       (if w = 2 then [] else [(((x - 1) mod w, y), (1, 0))])"
    unfolding fl msl by (rule laterals_order [OF w2 h2])
  have dia: "map snd (filter is_diagonal (?lat @ ?dia)) =
       (if (w, h) = (2, 2) then []
        else if (x, y) = (0, 0) \<or> (x, y) = (w - 1, h - 1)
        then [(((x - 1) mod w, (y - 1) mod h), (1, 1)),
              (((x + 1) mod w, (y + 1) mod h), (- 1, - 1))]
        else if (x, y) = (w - 1, 0) \<or> (x, y) = (0, h - 1)
        then [(((x - 1) mod w, (y + 1) mod h), (1, - 1)),
              (((x + 1) mod w, (y - 1) mod h), (- 1, 1))]
        else [])"
    unfolding fd msd by (rule diagonals_by_corner [OF w2 h2])
  from gm split lat dia show ?thesis by blast
qed

theorem C6_move_order_witness:
  "Puzzle_init [[1, 2, 3], [4, 0, 5], [6, 7, 8]] (3, 3) (1, 1) =
     Inr \<lparr>dimensions = (3, 3), grid = [[1, 2, 3], [4, 0, 5], [6, 7, 8]], tile_pos = (1, 1)\<rparr> \<and>
   map snd (filter is_lateral
     [(1, (1, 0), (0, - 1)), (1, (1, 2), (0, 1)), (1, (2, 1), (- 1, 0)), (1, (0, 1), (1, 0))]) =
     [((1, 0), (0, - 1)), ((1, 2), (0, 1)), ((2, 1), (- 1, 0)), ((0, 1), (1, 0))]"
  using C6_move_order [of "[[1, 2, 3], [4, 0, 5], [6, 7, 8]]" 3 3 1 1
      "\<lparr>dimensions = (3, 3), grid = [[1, 2, 3], [4, 0, 5], [6, 7, 8]], tile_pos = (1, 1)\<rparr>"]
  by (simp add: Puzzle_init_def is_lateral_def is_vertical_def is_horizontal_def)

section \<open>Inequality\<close>

text \<open>
  Claim C10. For all states \<open>p\<close> and \<open>q\<close>, evaluating \<^verbatim>\<open>p != q\<close> raises the unbound-name
  error, whatever the builtins beyond the underscore names are and whatever a binding of
  the name would have computed; it does not return the negation of \<^verbatim>\<open>p == q\<close>.
\<close>

theorem C10_ne_raises_NameError:
  "puzzle_ne is_builtin callee p q = Inl NameError \<and>
   puzzle_ne is_builtin callee p q \<noteq> Inr (\<not> puzzle_eq p q)"
  by (simp add: puzzle_ne_def lookup_global_def module_globals_def builtin_underscore_names_def)

section \<open>Cells, updates and swaps\<close>

lemma np_index_in_range: "0 \<le> i \<Longrightarrow> nat i < n \<Longrightarrow> np_index n i = Inr (nat i)"
  by (simp add: np_index_def)

lemma getitem_in_grid: "in_grid g pos \<Longrightarrow> getitem g pos = Inr (cell g pos)"
  by (simp add: in_grid_def getitem_def cell_def np_index_in_range)

lemma setitem_in_grid: "in_grid g pos \<Longrightarrow> setitem g pos v = Inr (put g pos v)"
  by (simp add: in_grid_def setitem_def put_def np_index_in_range)

lemma length_put [simp]: "length (put g pos v) = length g"
  by (simp add: put_def)

lemma length_put_row [simp]: "length (put g pos v ! j) = length (g ! j)"
proof (cases "nat (snd pos) < length g")
  case True
  then show ?thesis by (cases "j = nat (snd pos)") (simp_all add: put_def)
next
  case False
  then have "length g \<le> nat (snd pos)" by simp
  then show ?thesis by (simp add: put_def list_update_beyond)
qed

lemma in_grid_put [simp]: "in_grid (put g p v) q \<longleftrightarrow> in_grid g q"
  by (simp add: in_grid_def)

lemma cell_put:
  "in_grid g p \<Longrightarrow> in_grid g q \<Longrightarrow> cell (put g p v) q = (if q = p then v else cell g q)"
  by (cases p; cases q) (auto simp: in_grid_def cell_def put_def nth_list_update)

lemma grid_eqI:
  assumes "length a = length b"
    and "\<And>j. j < length a \<Longrightarrow> length (a ! j) = length (b ! j)"
    and "\<And>p. in_grid a p \<Longrightarrow> cell a p = cell b p"
  shows "a = b"
proof (rule nth_equalityI)
  show "length a = length b" by fact
next
  fix j assume j: "j < length a"
  show "a ! j = b ! j"
  proof (rule nth_equalityI)
    show "length (a ! j) = length (b ! j)" using assms(2) j .
  next
    fix i assume i: "i < length (a ! j)"
    have "in_grid a (int i, int j)" using i j by (simp add: in_grid_def)
    from assms(3) [OF this] show "a ! j ! i = b ! j ! i" by (simp add: cell_def)
  qed
qed

lemma swap_in_grid:
  assumes "in_grid a p1" "in_grid a p2"
  shows "swap a p1 p2 = Inr (put (put a p1 (cell a p2)) p2 (cell a p1))"
  using assms by (simp add: swap_def getitem_in_grid setitem_in_grid)

lemma swap_swap:
  assumes p1: "in_grid a p1" and p2: "in_grid a p2" and s: "swap a p1 p2 = Inr b"
  shows "swap b p1 p2 = Inr a" and "swap b p2 p1 = Inr a"
proof -
  from s swap_in_grid [OF p1 p2] have b: "b = put (put a p1 (cell a p2)) p2 (cell a p1)" by simp
  have b1: "in_grid b p1" and b2: "in_grid b p2" using p1 p2 by (simp_all add: b)
  have c1: "cell b p1 = (if p1 = p2 then cell a p1 else cell a p2)"
    using p1 p2 by (simp add: b cell_put)
  have c2: "cell b p2 = cell a p1"
    using p1 p2 by (simp add: b cell_put)
  have "swap b p1 p2 = Inr (put (put b p1 (cell b p2)) p2 (cell b p1))"
    by (rule swap_in_grid [OF b1 b2])
  also have "put (put b p1 (cell b p2)) p2 (cell b p1) = a"
  proof (rule grid_eqI)
    fix q assume "in_grid (put (put b p1 (cell b p2)) p2 (cell b p1)) q"
    then have q: "in_grid a q" by (simp add: b)
    then have qb: "in_grid b q" by (simp add: b)
    show "cell (put (put b p1 (cell b p2)) p2 (cell b p1)) q = cell a q"
      using b1 b2 qb p1 p2 q by (auto simp: cell_put c1 c2) (simp_all add: b cell_put)
  qed (simp_all add: b)
  finally show "swap b p1 p2 = Inr a" .
  have "swap b p2 p1 = Inr (put (put b p2 (cell b p1)) p1 (cell b p2))"
    by (rule swap_in_grid [OF b2 b1])
  also have "put (put b p2 (cell b p1)) p1 (cell b p2) = a"
  proof (rule grid_eqI)
    fix q assume "in_grid (put (put b p2 (cell b p1)) p1 (cell b p2)) q"
    then have q: "in_grid a q" by (simp add: b)
    then have qb: "in_grid b q" by (simp add: b)
    show "cell (put (put b p2 (cell b p1)) p1 (cell b p2)) q = cell a q"
      using b1 b2 qb p1 p2 q by (auto simp: cell_put c1 c2) (simp_all add: b cell_put)
  qed (simp_all add: b)
  finally show "swap b p2 p1 = Inr a" .
qed

section \<open>Applying a move\<close>

lemma is_array2d_nth: "is_array2d g \<Longrightarrow> j < length g \<Longrightarrow> length (g ! j) = shape1 g"
  by (simp add: is_array2d_def list_all_length)

lemma shape1_nonempty: "g \<noteq> [] \<Longrightarrow> shape1 g = length (g ! 0)"
  by (cases g) (simp_all add: shape1_def)

lemma shape1_put [simp]: "shape1 (put g p v) = shape1 g"
proof (cases "g = []")
  case True
  then show ?thesis by (simp add: put_def)
next
  case False
  then have "put g p v \<noteq> []" by (metis length_put length_0_conv)
  with False show ?thesis by (simp add: shape1_nonempty)
qed

lemma shape0_put [simp]: "shape0 (put g p v) = shape0 g"
  by (simp add: shape0_def)

lemma is_array2d_put: "is_array2d g \<Longrightarrow> is_array2d (put g p v)"
  by (simp add: is_array2d_def list_all_length)

lemma in_grid_array:
  assumes "is_array2d g"
  shows "in_grid g p \<longleftrightarrow>
     0 \<le> fst p \<and> fst p < int (shape1 g) \<and> 0 \<le> snd p \<and> snd p < int (shape0 g)"
proof (cases "0 \<le> snd p \<and> nat (snd p) < length g")
  case True
  then have "length (g ! nat (snd p)) = shape1 g" using assms by (simp add: is_array2d_nth)
  with True show ?thesis by (auto simp: in_grid_def shape0_def)
next
  case False
  then show ?thesis by (auto simp: in_grid_def shape0_def)
qed

lemma consistent_in_grid:
  assumes "consistent S" "dimensions S = (w, h)"
  shows "in_grid (grid S) p \<longleftrightarrow> 0 \<le> fst p \<and> fst p < w \<and> 0 \<le> snd p \<and> snd p < h"
  using assms by (auto simp: consistent_def in_grid_array)

lemma consistent_dims:
  assumes "consistent S" "dimensions S = (w, h)"
  shows "2 \<le> w" "2 \<le> h" "0 \<le> fst (tile_pos S)" "fst (tile_pos S) < w"
    "0 \<le> snd (tile_pos S)" "snd (tile_pos S) < h"
  using assms consistent_in_grid [OF assms, of "tile_pos S"]
  by (auto simp: consistent_def)

lemma compute_move_consistent:
  assumes S: "consistent S" and d: "dimensions S = (w, h)" and t: "in_grid (grid S) tile"
  shows "\<exists>S'. compute_move S S (c, tile, dir) = Inr S' \<and>
           swap (grid S) tile ((fst tile + fst dir) mod w, (snd tile + snd dir) mod h) =
             Inr (grid S') \<and>
           tile_pos S' = tile \<and> dimensions S' = (w, h) \<and> consistent S' \<and>
           in_grid (grid S) ((fst tile + fst dir) mod w, (snd tile + snd dir) mod h)"
proof -
  define e where "e = ((fst tile + fst dir) mod w, (snd tile + snd dir) mod h)"
  from consistent_dims [OF S d] have w2: "2 \<le> w" and h2: "2 \<le> h" by simp_all
  have e: "in_grid (grid S) e"
    unfolding consistent_in_grid [OF S d] e_def using w2 h2 by simp
  let ?g = "put (put (grid S) tile (cell (grid S) e)) e (cell (grid S) tile)"
  let ?S = "\<lparr>dimensions = (w, h), grid = ?g, tile_pos = tile\<rparr>"
  have sw: "swap (grid S) tile e = Inr ?g" by (rule swap_in_grid [OF t e])
  have shape: "(int (shape1 ?g), int (shape0 ?g)) = (w, h)"
    using S d by (simp add: consistent_def)
  have fs: "from_state ?g (Some tile) = Inr ?S"
    using w2 h2 shape by (simp add: from_state_def Puzzle_init_def)
  have cm: "compute_move S S (c, tile, dir) = Inr ?S"
    using w2 h2 by (simp add: compute_move_def d case_prod_beta Let_def e_def [symmetric] sw fs)
  have cons: "consistent ?S"
    using S d t w2 h2 by (simp add: consistent_def is_array2d_put)
  from cm sw cons e show ?thesis unfolding e_def by auto
qed

lemma array_equal_iff: "array_equal a b \<longleftrightarrow> a = b"
  by (auto simp: array_equal_def list.rel_eq)

lemma puzzle_eq_iff: "puzzle_eq p (PuzzleObj q) \<longleftrightarrow> grid p = grid q"
  by (simp add: puzzle_eq_def array_equal_iff)

lemma laterals_in_grid:
  assumes S: "consistent S" and d: "dimensions S = (w, h)" and p: "tile_pos S = (x, y)"
    and m: "(t, dir) \<in> set (laterals w h x y)"
  shows "in_grid (grid S) t"
    and "dir = (0, - 1) \<or> dir = (0, 1) \<or> dir = (- 1, 0) \<or> dir = (1, 0)"
proof -
  from consistent_dims [OF S d] p
  have b: "2 \<le> w" "2 \<le> h" "0 \<le> x" "x < w" "0 \<le> y" "y < h" by simp_all
  from m have "t \<in> {(x, (y - 1) mod h), (x, (y + 1) mod h), ((x + 1) mod w, y), ((x - 1) mod w, y)}"
    unfolding laterals_order [OF b(1,2)] by (auto split: if_splits)
  then show "in_grid (grid S) t"
    unfolding consistent_in_grid [OF S d] using b by auto
  from m show "dir = (0, - 1) \<or> dir = (0, 1) \<or> dir = (- 1, 0) \<or> dir = (1, 0)"
    unfolding laterals_order [OF b(1,2)] by (auto split: if_splits)
qed

lemma diagonals_in_grid:
  assumes S: "consistent S" and d: "dimensions S = (w, h)"
    and m: "(t, dir) \<in> set (diagonals w h x y)"
  shows "in_grid (grid S) t"
proof -
  from consistent_dims [OF S d] have b: "2 \<le> w" "2 \<le> h" by simp_all
  from m have "\<exists>a b. t = (a mod w, b mod h)"
    unfolding diagonals_cases by (auto split: if_splits)
  then show "in_grid (grid S) t"
    unfolding consistent_in_grid [OF S d] using b by auto
qed

lemma get_moves_consistent:
  assumes S: "consistent S" and d: "dimensions S = (w, h)" and p: "tile_pos S = (x, y)"
  shows "get_moves S =
     Inr (map (\<lambda>t. (cost w h x y (fst t), fst t, snd t)) (laterals w h x y) @
          map (\<lambda>t. (3, fst t, snd t)) (diagonals w h x y))"
  using consistent_dims(1,2) [OF S d] by (simp add: get_moves_def d p)

lemma get_moves_in_grid:
  assumes S: "consistent S" and g: "get_moves S = Inr ms" and m: "(c, t, dir) \<in> set ms"
  shows "in_grid (grid S) t"
proof -
  obtain w h where d: "dimensions S = (w, h)" by (cases "dimensions S")
  obtain x y where p: "tile_pos S = (x, y)" by (cases "tile_pos S")
  from g m get_moves_consistent [OF S d p]
  have "(t, dir) \<in> set (laterals w h x y) \<or> (t, dir) \<in> set (diagonals w h x y)" by auto
  then show ?thesis
    using laterals_in_grid(1) [OF S d p] diagonals_in_grid [OF S d] by blast
qed

lemma get_moves_lateral_dir:
  assumes S: "consistent S" and g: "get_moves S = Inr ms" and m: "(c, t, dir) \<in> set ms"
    and l: "is_lateral (c, t, dir)"
  shows "dir = (0, - 1) \<or> dir = (0, 1) \<or> dir = (- 1, 0) \<or> dir = (1, 0)"
proof -
  obtain w h where d: "dimensions S = (w, h)" by (cases "dimensions S")
  obtain x y where p: "tile_pos S = (x, y)" by (cases "tile_pos S")
  let ?ms = "map (\<lambda>t. (cost w h x y (fst t), fst t, snd t)) (laterals w h x y) @
          map (\<lambda>t. (3, fst t, snd t)) (diagonals w h x y)"
  from g get_moves_consistent [OF S d p] have ms: "ms = ?ms" by simp
  from m l have "(c, t, dir) \<in> set (filter is_lateral ?ms)" by (simp add: ms)
  then have "(t, dir) \<in> set (laterals w h x y)"
    unfolding filter_lateral_moves by auto
  then show ?thesis by (rule laterals_in_grid(2) [OF S d p])
qed

lemma from_state_consistent:
  assumes a: "is_array2d g" and f: "from_state g tp = Inr S"
    and tp: "\<And>p. tp = Some p \<Longrightarrow> in_grid g p"
  shows "consistent S \<and> grid S = g"
proof -
  obtain pos where pos: "(case tp of None \<Rightarrow> locate_tile g 0 | Some p \<Rightarrow> Inr p) = Inr pos"
    and init: "Puzzle_init g (int (shape1 g), int (shape0 g)) pos = Inr S"
    using f by (auto simp: from_state_def split: sum.splits)
  have ing: "in_grid g pos"
  proof (cases tp)
    case None
    with pos have "locate_rows g 0 0 = Inr (fst pos, snd pos)" by (simp add: locate_tile_def)
    from locate_rows_Inr [OF this] show ?thesis by (simp add: in_grid_def)
  next
    case (Some p)
    with pos tp show ?thesis by simp
  qed
  from Puzzle_init_Inr [OF init] a ing show ?thesis by (simp add: consistent_def)
qed

subsection \<open>Reversing a move\<close>

text \<open>
  Claim C2 states that a lateral move \<open>(c, tile, (dx, dy))\<close> followed by
  \<open>(c, tile, (-dx, -dy))\<close> gives back the state. \<^verbatim>\<open>compute_move\<close> exchanges the cell at
  the move's tile with the cell at tile plus direction, so the second move exchanges the
  tile's cell with the one on its other side: on a 3 by 3 grid, after the right neighbour
  \<open>(2, 1)\<close> has moved left, the move \<open>((2, 1), (1, 0))\<close> exchanges \<open>(2, 1)\<close> with \<open>(0, 1)\<close>
  and the result differs from the start.
\<close>

theorem C2_reverse_move_counterexample:
  "from_state [[1, 2, 3], [4, 0, 5], [6, 7, 8]] None =
     Inr \<lparr>dimensions = (3, 3), grid = [[1, 2, 3], [4, 0, 5], [6, 7, 8]], tile_pos = (1, 1)\<rparr> \<and>
   get_moves \<lparr>dimensions = (3, 3), grid = [[1, 2, 3], [4, 0, 5], [6, 7, 8]], tile_pos = (1, 1)\<rparr> =
     Inr [(1, (1, 0), (0, - 1)), (1, (1, 2), (0, 1)), (1, (2, 1), (- 1, 0)), (1, (0, 1), (1, 0))] \<and>
   is_lateral (1, (2, 1), (- 1, 0)) \<and>
   compute_move
     \<lparr>dimensions = (3, 3), grid = [[1, 2, 3], [4, 0, 5], [6, 7, 8]], tile_pos = (1, 1)\<rparr>
     \<lparr>dimensions = (3, 3), grid = [[1, 2, 3], [4, 0, 5], [6, 7, 8]], tile_pos = (1, 1)\<rparr>
     (1, (2, 1), (- 1, 0)) =
     Inr \<lparr>dimensions = (3, 3), grid = [[1, 2, 3], [4, 5, 0], [6, 7, 8]], tile_pos = (2, 1)\<rparr> \<and>
   compute_move
     \<lparr>dimensions = (3, 3), grid = [[1, 2, 3], [4, 5, 0], [6, 7, 8]], tile_pos = (2, 1)\<rparr>
     \<lparr>dimensions = (3, 3), grid = [[1, 2, 3], [4, 5, 0], [6, 7, 8]], tile_pos = (2, 1)\<rparr>
     (1, (2, 1), (1, 0)) =
     Inr \<lparr>dimensions = (3, 3), grid = [[1, 2, 3], [0, 5, 4], [6, 7, 8]], tile_pos = (2, 1)\<rparr> \<and>
   \<not> puzzle_eq
     \<lparr>dimensions = (3, 3), grid = [[1, 2, 3], [0, 5, 4], [6, 7, 8]], tile_pos = (2, 1)\<rparr>
     (PuzzleObj
       \<lparr>dimensions = (3, 3), grid = [[1, 2, 3], [4, 0, 5], [6, 7, 8]], tile_pos = (1, 1)\<rparr>)"
  by (simp add: from_state_def locate_tile_def Puzzle_init_def shape0_def shape1_def
      get_moves_def laterals_def diagonals_def cost_def Let_def
      is_lateral_def is_vertical_def is_horizontal_def
      compute_move_def swap_def getitem_def setitem_def np_index_def
      puzzle_eq_def array_equal_def)

text \<open>
  Claim C2, amended. For every consistent state and every lateral move
  \<open>(c, tile, (dx, dy))\<close> returned by \<^verbatim>\<open>get_moves\<close>, applying the move and then the move
  \<open>(c, tile', (-dx, -dy))\<close>, where \<open>tile'\<close> is tile plus direction wrapped into the grid (the
  cell the first move exchanged the tile with), both succeed and give a state equal to
  the original one. With the tile coordinate unchanged, the same holds when the axis the
  move runs along has size 2.
\<close>

theorem C2_reverse_move:
  assumes S: "consistent S" and d: "dimensions S = (w, h)"
    and g: "get_moves S = Inr ms"
    and m: "(c, (tx, ty), (dx, dy)) \<in> set ms"
    and l: "is_lateral (c, (tx, ty), (dx, dy))"
  shows "\<exists>S'. compute_move S S (c, (tx, ty), (dx, dy)) = Inr S' \<and>
     (\<exists>S''. compute_move S' S' (c, ((tx + dx) mod w, (ty + dy) mod h), (- dx, - dy)) = Inr S'' \<and>
        puzzle_eq S'' (PuzzleObj S)) \<and>
     (dx = 0 \<and> h = 2 \<or> dy = 0 \<and> w = 2 \<longrightarrow>
        (\<exists>S''. compute_move S' S' (c, (tx, ty), (- dx, - dy)) = Inr S'' \<and>
           puzzle_eq S'' (PuzzleObj S)))"
proof -
  let ?t = "(tx, ty)"
  let ?e = "((tx + dx) mod w, (ty + dy) mod h)"
  have t: "in_grid (grid S) ?t" by (rule get_moves_in_grid [OF S g m])
  then have tb: "0 \<le> tx" "tx < w" "0 \<le> ty" "ty < h"
    unfolding consistent_in_grid [OF S d] by simp_all
  from compute_move_consistent [OF S d t, of c "(dx, dy)"]
  obtain S' where cm: "compute_move S S (c, ?t, (dx, dy)) = Inr S'"
    and sw: "swap (grid S) ?t ?e = Inr (grid S')"
    and S': "consistent S'" and d': "dimensions S' = (w, h)"
    and e: "in_grid (grid S) ?e" by auto
  have e': "in_grid (grid S') ?e" and t': "in_grid (grid S') ?t"
    using e t unfolding consistent_in_grid [OF S d] consistent_in_grid [OF S' d'] by simp_all
  have ret: "((fst ?e + fst (- dx, - dy)) mod w, (snd ?e + snd (- dx, - dy)) mod h) = ?t"
    using tb by (simp add: mod_diff_left_eq)
  from compute_move_consistent [OF S' d' e', of c "(- dx, - dy)"]
  obtain S2 where cm2: "compute_move S' S' (c, ?e, (- dx, - dy)) = Inr S2"
    and sw2: "swap (grid S') ?e ?t = Inr (grid S2)"
    unfolding ret by auto
  from swap_swap(2) [OF t e sw] sw2 have "grid S2 = grid S" by simp
  then have first: "\<exists>S''. compute_move S' S' (c, ?e, (- dx, - dy)) = Inr S'' \<and>
        puzzle_eq S'' (PuzzleObj S)"
    using cm2 by (auto simp: puzzle_eq_iff)
  have second: "\<exists>S''. compute_move S' S' (c, ?t, (- dx, - dy)) = Inr S'' \<and>
           puzzle_eq S'' (PuzzleObj S)"
    if ax: "dx = 0 \<and> h = 2 \<or> dy = 0 \<and> w = 2"
  proof -
    from get_moves_lateral_dir [OF S g m l]
    have dir: "(dx = 0 \<and> (dy = 1 \<or> dy = - 1)) \<or> (dy = 0 \<and> (dx = 1 \<or> dx = - 1))" by auto
    have same: "((fst ?t + fst (- dx, - dy)) mod w, (snd ?t + snd (- dx, - dy)) mod h) = ?e"
      using ax dir by (auto simp: mod_diff_right_eq) presburger+
    from compute_move_consistent [OF S' d' t', of c "(- dx, - dy)"]
    obtain S3 where cm3: "compute_move S' S' (c, ?t, (- dx, - dy)) = Inr S3"
      and sw3: "swap (grid S') ?t ?e = Inr (grid S3)"
      unfolding same by auto
    from swap_swap(1) [OF t e sw] sw3 have "grid S3 = grid S" by simp
    then show ?thesis using cm3 by (auto simp: puzzle_eq_iff)
  qed
  from cm first second show ?thesis by blast
qed

theorem C2_reverse_move_witness:
  "consistent \<lparr>dimensions = (2, 3), grid = [[1, 0], [2, 3], [4, 5]], tile_pos = (1, 0)\<rparr> \<and>
   get_moves \<lparr>dimensions = (2, 3), grid = [[1, 0], [2, 3], [4, 5]], tile_pos = (1, 0)\<rparr> =
     Inr [(2, (1, 2), (0, - 1)), (1, (1, 1), (0, 1)), (1, (0, 0), (- 1, 0)),
          (3, (0, 1), (1, - 1)), (3, (0, 2), (- 1, 1))] \<and>
   is_lateral (1, (0, 0), (- 1, 0)) \<and>
   compute_move
     \<lparr>dimensions = (2, 3), grid = [[1, 0], [2, 3], [4, 5]], tile_pos = (1, 0)\<rparr>
     \<lparr>dimensions = (2, 3), grid = [[1, 0], [2, 3], [4, 5]], tile_pos = (1, 0)\<rparr>
     (1, (0, 0), (- 1, 0)) =
     Inr \<lparr>dimensions = (2, 3), grid = [[0, 1], [2, 3], [4, 5]], tile_pos = (0, 0)\<rparr> \<and>
   compute_move
     \<lparr>dimensions = (2, 3), grid = [[0, 1], [2, 3], [4, 5]], tile_pos = (0, 0)\<rparr>
     \<lparr>dimensions = (2, 3), grid = [[0, 1], [2, 3], [4, 5]], tile_pos = (0, 0)\<rparr>
     (1, (1, 0), (1, 0)) =
     Inr \<lparr>dimensions = (2, 3), grid = [[1, 0], [2, 3], [4, 5]], tile_pos = (1, 0)\<rparr> \<and>
   compute_move
     \<lparr>dimensions = (2, 3), grid = [[0, 1], [2, 3], [4, 5]], tile_pos = (0, 0)\<rparr>
     \<lparr>dimensions = (2, 3), grid = [[0, 1], [2, 3], [4, 5]], tile_pos = (0, 0)\<rparr>
     (1, (0, 0), (1, 0)) =
     Inr \<lparr>dimensions = (2, 3), grid = [[1, 0], [2, 3], [4, 5]], tile_pos = (0, 0)\<rparr>"
  using C2_reverse_move [of "\<lparr>dimensions = (2, 3), grid = [[1, 0], [2, 3], [4, 5]], tile_pos = (1, 0)\<rparr>"
      2 3 "[(2, (1, 2), (0, - 1)), (1, (1, 1), (0, 1)), (1, (0, 0), (- 1, 0)),
          (3, (0, 1), (1, - 1)), (3, (0, 2), (- 1, 1))]" 1 0 0 "- 1" 0]
  by (simp add: consistent_def is_array2d_def in_grid_def shape0_def shape1_def
      get_moves_def laterals_def diagonals_def cost_def Let_def
      is_lateral_def is_vertical_def is_horizontal_def
      compute_move_def swap_def getitem_def setitem_def np_index_def
      from_state_def Puzzle_init_def)

section \<open>Reshaping\<close>

lemma chunks_0 [simp]: "chunks 0 c xs = []"
  by (simp add: chunks_def)

lemma chunks_Suc: "chunks (Suc r) c xs = take c xs # chunks r c (drop c xs)"
proof -
  have "[0..<Suc r] = 0 # map Suc [0..<r]"
    by (simp add: upt_conv_Cons map_Suc_upt del: upt_Suc)
  then show ?thesis
    by (simp add: chunks_def comp_def add.commute del: upt_Suc)
qed

lemma length_chunks [simp]: "length (chunks r c xs) = r"
  by (simp add: chunks_def)

lemma concat_chunks: "length xs = r * c \<Longrightarrow> concat (chunks r c xs) = xs"
proof (induction r arbitrary: xs)
  case 0
  then show ?case by simp
next
  case (Suc r)
  then have "length (drop c xs) = r * c" by simp
  from Suc.IH [OF this] show ?case by (simp add: chunks_Suc)
qed

lemma chunks_concat:
  "\<forall>row \<in> set g. length row = c \<Longrightarrow> chunks (length g) c (concat g) = g"
  by (induction g) (simp_all add: chunks_Suc)

lemma chunks_row:
  assumes "length xs = r * c" "j < r"
  shows "length (chunks r c xs ! j) = c"
proof -
  have "(j + 1) * c \<le> r * c" using assms(2) by (intro mult_le_mono1) simp
  then have "c \<le> r * c - j * c" by simp
  with assms show ?thesis by (simp add: chunks_def)
qed

lemma chunks_nth:
  assumes "length xs = r * c" "j < r" "i < c"
  shows "chunks r c xs ! j ! i = xs ! (j * c + i)"
  using assms by (simp add: chunks_def)

lemma is_array2d_chunks:
  assumes "length xs = r * c"
  shows "is_array2d (chunks r c xs)" and "0 < r \<Longrightarrow> shape1 (chunks r c xs) = c"
proof -
  show s1: "shape1 (chunks r c xs) = c" if "0 < r"
  proof -
    from that have "chunks r c xs \<noteq> []" by (metis length_chunks length_0_conv less_numeral_extra(3))
    then have "shape1 (chunks r c xs) = length (chunks r c xs ! 0)" by (rule shape1_nonempty)
    also have "\<dots> = c" using assms that by (rule chunks_row)
    finally show ?thesis .
  qed
  show "is_array2d (chunks r c xs)"
  proof (cases "0 < r")
    case True
    with assms s1 show ?thesis by (simp add: is_array2d_def list_all_length chunks_row)
  next
    case False
    then show ?thesis by (simp add: is_array2d_def)
  qed
qed

lemma np_reshape_fits:
  assumes "length xs = r * c"
  shows "np_reshape xs (int r, int c) = Inr (chunks r c xs)"
  using assms by (simp add: np_reshape_def Let_def flip: of_nat_mult)

section \<open>Equality and hash\<close>

lemma is_array2d_rows: "is_array2d g \<Longrightarrow> row \<in> set g \<Longrightarrow> length row = shape1 g"
  by (simp add: is_array2d_def list_all_iff)

lemma length_concat_rows:
  "\<forall>row \<in> set g. length row = c \<Longrightarrow> length (concat g) = length g * c"
  by (induction g) simp_all

lemma from_int_list_concat:
  assumes "is_array2d g"
  shows "from_int_list (concat g) (int (shape1 g), int (shape0 g)) = from_state g None"
proof -
  have rows: "\<forall>row \<in> set g. length row = shape1 g"
    using assms by (simp add: is_array2d_rows)
  have "np_reshape (concat g) (int (length g), int (shape1 g)) =
      Inr (chunks (length g) (shape1 g) (concat g))"
    by (rule np_reshape_fits) (rule length_concat_rows [OF rows])
  also have "chunks (length g) (shape1 g) (concat g) = g"
    by (rule chunks_concat [OF rows])
  finally show ?thesis by (simp add: from_int_list_def shape0_def)
qed

lemma array_cells_eq:
  assumes a: "is_array2d a" and b: "is_array2d b"
  shows "a = b \<longleftrightarrow>
     shape0 a = shape0 b \<and> shape1 a = shape1 b \<and>
     (\<forall>y < shape0 a. \<forall>x < shape1 a. a ! y ! x = b ! y ! x)"
proof
  assume "a = b"
  then show "shape0 a = shape0 b \<and> shape1 a = shape1 b \<and>
     (\<forall>y < shape0 a. \<forall>x < shape1 a. a ! y ! x = b ! y ! x)" by simp
next
  assume r: "shape0 a = shape0 b \<and> shape1 a = shape1 b \<and>
     (\<forall>y < shape0 a. \<forall>x < shape1 a. a ! y ! x = b ! y ! x)"
  show "a = b"
  proof (rule nth_equalityI)
    show "length a = length b" using r by (simp add: shape0_def)
  next
    fix j assume j: "j < length a"
    then have jb: "j < length b" using r by (simp add: shape0_def)
    have la: "length (a ! j) = shape1 a" using a j by (rule is_array2d_nth)
    have lb: "length (b ! j) = shape1 b" using b jb by (rule is_array2d_nth)
    show "a ! j = b ! j"
    proof (rule nth_equalityI)
      show "length (a ! j) = length (b ! j)" using la lb r by simp
    next
      fix i assume "i < length (a ! j)"
      with la j r show "a ! j ! i = b ! j ! i" by (simp add: shape0_def)
    qed
  qed
qed

text \<open>
  Claim C8. Two states are equal exactly when their grids are equal, which for arrays
  means the same shape and the same value in every cell. Equal states have the same hash,
  whatever the string form of an array and the hash of a string are. The state built
  from an array and the state built from the flat list of its values with its dimensions
  are equal, both ways round, and have the same hash. A state whose grid differs from
  another's in one cell is unequal to it, both ways round.
\<close>

theorem C8_equality_and_hash:
  "(puzzle_eq p (PuzzleObj q) \<longleftrightarrow> grid p = grid q) \<and>
   (is_array2d (grid p) \<and> is_array2d (grid q) \<longrightarrow>
      (puzzle_eq p (PuzzleObj q) \<longleftrightarrow>
         shape0 (grid p) = shape0 (grid q) \<and> shape1 (grid p) = shape1 (grid q) \<and>
         (\<forall>y < shape0 (grid p). \<forall>x < shape1 (grid p). grid p ! y ! x = grid q ! y ! x))) \<and>
   (puzzle_eq p (PuzzleObj q) \<longrightarrow>
      puzzle_hash np_str py_hash p = puzzle_hash np_str py_hash q) \<and>
   (is_array2d g \<and> from_state g None = Inr a \<longrightarrow>
      (\<exists>b. from_int_list (concat g) (int (shape1 g), int (shape0 g)) = Inr b \<and>
         puzzle_eq a (PuzzleObj b) \<and> puzzle_eq b (PuzzleObj a) \<and>
         puzzle_hash np_str py_hash a = puzzle_hash np_str py_hash b)) \<and>
   (y < length (grid p) \<and> x < length (grid p ! y) \<and> v \<noteq> grid p ! y ! x \<and>
      grid q = (grid p)[y := (grid p ! y)[x := v]] \<longrightarrow>
      \<not> puzzle_eq p (PuzzleObj q) \<and> \<not> puzzle_eq q (PuzzleObj p))"
proof -
  have eq: "puzzle_eq p (PuzzleObj q) \<longleftrightarrow> grid p = grid q" by (rule puzzle_eq_iff)
  have cells: "is_array2d (grid p) \<and> is_array2d (grid q) \<longrightarrow>
      (puzzle_eq p (PuzzleObj q) \<longleftrightarrow>
         shape0 (grid p) = shape0 (grid q) \<and> shape1 (grid p) = shape1 (grid q) \<and>
         (\<forall>y < shape0 (grid p). \<forall>x < shape1 (grid p). grid p ! y ! x = grid q ! y ! x))"
    unfolding eq using array_cells_eq [of "grid p" "grid q"] by blast
  have hash: "puzzle_eq p (PuzzleObj q) \<longrightarrow>
      puzzle_hash np_str py_hash p = puzzle_hash np_str py_hash q"
    unfolding eq by (simp add: puzzle_hash_def)
  have paths: "is_array2d g \<and> from_state g None = Inr a \<longrightarrow>
      (\<exists>b. from_int_list (concat g) (int (shape1 g), int (shape0 g)) = Inr b \<and>
         puzzle_eq a (PuzzleObj b) \<and> puzzle_eq b (PuzzleObj a) \<and>
         puzzle_hash np_str py_hash a = puzzle_hash np_str py_hash b)"
    by (auto simp: from_int_list_concat puzzle_eq_iff)
  have changed: "y < length (grid p) \<and> x < length (grid p ! y) \<and> v \<noteq> grid p ! y ! x \<and>
      grid q = (grid p)[y := (grid p ! y)[x := v]] \<longrightarrow>
      \<not> puzzle_eq p (PuzzleObj q) \<and> \<not> puzzle_eq q (PuzzleObj p)"
  proof (intro impI)
    assume h: "y < length (grid p) \<and> x < length (grid p ! y) \<and> v \<noteq> grid p ! y ! x \<and>
      grid q = (grid p)[y := (grid p ! y)[x := v]]"
    then have "grid q ! y ! x = v" by simp
    with h have "grid q \<noteq> grid p" by metis
    then show "\<not> puzzle_eq p (PuzzleObj q) \<and> \<not> puzzle_eq q (PuzzleObj p)"
      by (auto simp: puzzle_eq_iff)
  qed
  from eq cells hash paths changed show ?thesis by blast
qed

theorem C8_equality_and_hash_witness:
  "is_array2d [[1, 2], [0, 3 :: int]] \<and>
   from_state [[1, 2], [0, 3]] None =
     Inr \<lparr>dimensions = (2, 2), grid = [[1, 2], [0, 3]], tile_pos = (0, 1)\<rparr> \<and>
   from_int_list [1, 2, 0, 3] (2, 2) =
     Inr \<lparr>dimensions = (2, 2), grid = [[1, 2], [0, 3]], tile_pos = (0, 1)\<rparr> \<and>
   puzzle_eq \<lparr>dimensions = (2, 2), grid = [[1, 2], [0, 3]], tile_pos = (0, 1)\<rparr>
     (PuzzleObj \<lparr>dimensions = (2, 2), grid = [[1, 2], [0, 3]], tile_pos = (0, 1)\<rparr>) \<and>
   \<not> puzzle_eq \<lparr>dimensions = (2, 2), grid = [[1, 2], [0, 3]], tile_pos = (0, 1)\<rparr>
     (PuzzleObj \<lparr>dimensions = (2, 2), grid = [[1, 2], [0, 4]], tile_pos = (0, 1)\<rparr>)"
  using C8_equality_and_hash [of "\<lparr>dimensions = (2, 2), grid = [[1, 2], [0, 3]], tile_pos = (0, 1)\<rparr>"
      "\<lparr>dimensions = (2, 2), grid = [[1, 2], [0, 4]], tile_pos = (0, 1)\<rparr>"
      "\<lambda>g. []" "\<lambda>s. 0" "[[1, 2], [0, 3]]"
      "\<lparr>dimensions = (2, 2), grid = [[1, 2], [0, 3]], tile_pos = (0, 1)\<rparr>" 1 1 4]
  by (simp add: is_array2d_def shape0_def shape1_def from_state_def locate_tile_def
      Puzzle_init_def from_int_list_def np_reshape_def chunks_def Let_def
      puzzle_eq_def array_equal_def upt_conv_Cons)

section \<open>Goal states\<close>

lemma length_np_transpose [simp]: "length (np_transpose g) = shape1 g"
  by (simp add: np_transpose_def)

lemma np_transpose_row:
  "j < shape1 g \<Longrightarrow> np_transpose g ! j = map (\<lambda>row. row ! j) g"
  by (simp add: np_transpose_def)

lemma np_transpose_nth:
  "j < shape1 g \<Longrightarrow> i < length g \<Longrightarrow> np_transpose g ! j ! i = g ! i ! j"
  by (simp add: np_transpose_row)

lemma shape1_np_transpose:
  assumes "0 < shape1 g"
  shows "shape1 (np_transpose g) = length g"
proof -
  from assms have "np_transpose g \<noteq> []" by (metis length_np_transpose length_0_conv less_numeral_extra(3))
  then have "shape1 (np_transpose g) = length (np_transpose g ! 0)" by (rule shape1_nonempty)
  also have "\<dots> = length g" using assms by (simp add: np_transpose_row)
  finally show ?thesis .
qed

lemma is_array2d_np_transpose:
  assumes "0 < shape1 g"
  shows "is_array2d (np_transpose g)"
  using assms
  by (simp add: is_array2d_def list_all_length shape1_np_transpose np_transpose_row)

lemma np_transpose_involution:
  assumes a: "is_array2d g" and c: "0 < shape1 g"
  shows "np_transpose (np_transpose g) = g"
proof (rule nth_equalityI)
  show "length (np_transpose (np_transpose g)) = length g"
    using c by (simp add: shape1_np_transpose)
next
  fix i assume "i < length (np_transpose (np_transpose g))"
  then have i: "i < length g" using c by (simp add: shape1_np_transpose)
  then have i': "i < shape1 (np_transpose g)" using c by (simp add: shape1_np_transpose)
  have li: "length (g ! i) = shape1 g" using a i by (rule is_array2d_nth)
  have "np_transpose (np_transpose g) ! i = map (\<lambda>row. row ! i) (np_transpose g)"
    using i' by (rule np_transpose_row)
  also have "\<dots> = map (\<lambda>j. g ! i ! j) [0..<shape1 g]"
    using i by (simp add: np_transpose_def)
  also have "\<dots> = g ! i"
    using li by (metis map_nth)
  finally show "np_transpose (np_transpose g) ! i = g ! i" .
qed

lemma from_state_located:
  assumes z: "row \<in> set g" "0 \<in> set row" and d: "2 \<le> shape1 g" "2 \<le> shape0 g"
  shows "\<exists>pos. from_state g None =
     Inr \<lparr>dimensions = (int (shape1 g), int (shape0 g)), grid = g, tile_pos = pos\<rparr>"
proof (cases "locate_tile g 0")
  case (Inl e)
  then have "\<forall>row \<in> set g. 0 \<notin> set row"
    by (simp add: locate_tile_def locate_rows_TileNotFound)
  with z show ?thesis by blast
next
  case (Inr pos)
  with d show ?thesis by (simp add: from_state_def Puzzle_init_def)
qed

lemma find_goals_unfold:
  assumes d: "dimensions S = (w, h)" and w2: "2 \<le> w" and h2: "2 \<le> h"
  defines "lin \<equiv> map int [1..<nat (w * h)] @ [0]"
  shows "length lin = nat h * nat w"
    and "find_goals S =
      (case from_state (chunks (nat h) (nat w) lin) None of
         Inl e \<Rightarrow> Inl e
       | Inr p1 \<Rightarrow>
           (case from_state (np_transpose (chunks (nat w) (nat h) lin)) None of
              Inl e \<Rightarrow> Inl e
            | Inr p2 \<Rightarrow> Inr (p1, p2)))"
proof -
  have N: "nat (w * h) = nat h * nat w"
    using w2 h2 by (simp add: nat_mult_distrib mult.commute)
  have "2 * 2 \<le> nat h * nat w" using w2 h2 by (intro mult_mono) simp_all
  then have pos: "0 < nat (w * h)" unfolding N using w2 h2 by simp
  show len: "length lin = nat h * nat w"
    using pos by (simp add: lin_def N)
  have ar: "arange (w * h) = 0 # map int [1..<nat (w * h)]"
    using pos by (simp add: arange_def upt_conv_Cons)
  have r1: "np_reshape lin (h, w) = Inr (chunks (nat h) (nat w) lin)"
    using np_reshape_fits [OF len] w2 h2 by simp
  have len': "length lin = nat w * nat h" using len by (simp add: mult.commute)
  have r2: "np_reshape lin (w, h) = Inr (chunks (nat w) (nat h) lin)"
    using np_reshape_fits [OF len'] w2 h2 by simp
  show "find_goals S =
      (case from_state (chunks (nat h) (nat w) lin) None of
         Inl e \<Rightarrow> Inl e
       | Inr p1 \<Rightarrow>
           (case from_state (np_transpose (chunks (nat w) (nat h) lin)) None of
              Inl e \<Rightarrow> Inl e
            | Inr p2 \<Rightarrow> Inr (p1, p2)))"
    by (simp only: find_goals_def d Let_def fst_conv snd_conv ar list.case
        lin_def [symmetric] r1 r2 sum.case)
qed

lemma last_cell_index:
  fixes r c :: nat
  assumes "0 < r" "0 < c"
  shows "(r - 1) * c + (c - 1) = r * c - 1" and "r - 1 < r" and "c - 1 < c"
proof -
  obtain r' where r: "r = Suc r'" using assms(1) by (cases r) simp_all
  obtain c' where c: "c = Suc c'" using assms(2) by (cases c) simp_all
  show "(r - 1) * c + (c - 1) = r * c - 1" by (simp add: r c)
  show "r - 1 < r" "c - 1 < c" using assms by simp_all
qed

lemma goal_sequence_last:
  assumes "0 < n"
  shows "(map int [1..<n] @ [0]) ! (n - 1) = 0" and "length (map int [1..<n] @ [0]) = n"
proof -
  have l: "length (map int [1..<n]) = n - 1" by simp
  show "(map int [1..<n] @ [0]) ! (n - 1) = 0"
    using nth_append_length [of "map int [1..<n]" 0 "[]"] unfolding l by simp
  show "length (map int [1..<n] @ [0]) = n" using assms by simp
qed

lemma example_goal1:
  "chunks 3 3 (map int [1..<9] @ [0]) = [[1, 2, 3], [4, 5, 6], [7, 8, 0]]"
  by code_simp

lemma example_goal2:
  "np_transpose (chunks 3 3 (map int [1..<9] @ [0])) = [[1, 4, 7], [2, 5, 8], [3, 6, 0]]"
  by code_simp

lemma goal_arrays:
  fixes r c :: nat
  assumes r: "2 \<le> r" and c: "2 \<le> c"
  defines "lin \<equiv> map int [1..<r * c] @ [0]"
  shows "\<exists>p. from_state (chunks r c lin) None =
           Inr \<lparr>dimensions = (int c, int r), grid = chunks r c lin, tile_pos = p\<rparr>"
    and "\<exists>p. from_state (np_transpose (chunks c r lin)) None =
           Inr \<lparr>dimensions = (int c, int r), grid = np_transpose (chunks c r lin), tile_pos = p\<rparr>"
    and "is_array2d (chunks r c lin)" "shape0 (chunks r c lin) = r" "shape1 (chunks r c lin) = c"
    and "is_array2d (np_transpose (chunks c r lin))"
      "shape0 (np_transpose (chunks c r lin)) = r" "shape1 (np_transpose (chunks c r lin)) = c"
    and "concat (chunks r c lin) = lin"
    and "concat (np_transpose (np_transpose (chunks c r lin))) = lin"
    and "\<forall>y < r. \<forall>x < c. chunks r c lin ! y ! x = lin ! (y * c + x)"
    and "\<forall>y < r. \<forall>x < c. np_transpose (chunks c r lin) ! y ! x = lin ! (x * r + y)"
proof -
  have r0: "0 < r" and c0: "0 < c" using r c by simp_all
  have n0: "0 < r * c" using r0 c0 by simp
  have len: "length lin = r * c" unfolding lin_def by (rule goal_sequence_last(2) [OF n0])
  have len': "length lin = c * r" using len by (simp add: mult.commute)
  have z: "lin ! (r * c - 1) = 0" unfolding lin_def by (rule goal_sequence_last(1) [OF n0])
  let ?g1 = "chunks r c lin"
  let ?c2 = "chunks c r lin"
  let ?g2 = "np_transpose ?c2"
  show a1: "is_array2d ?g1" by (rule is_array2d_chunks(1) [OF len])
  show s01: "shape0 ?g1 = r" by (simp add: shape0_def)
  show s11: "shape1 ?g1 = c" by (rule is_array2d_chunks(2) [OF len r0])
  have ac: "is_array2d ?c2" by (rule is_array2d_chunks(1) [OF len'])
  have s1c: "shape1 ?c2 = r" by (rule is_array2d_chunks(2) [OF len' c0])
  show a2: "is_array2d ?g2" using r0 by (simp add: is_array2d_np_transpose s1c)
  show s02: "shape0 ?g2 = r" by (simp add: shape0_def s1c)
  show s12: "shape1 ?g2 = c" using r0 by (simp add: shape1_np_transpose s1c)
  show "concat ?g1 = lin" by (rule concat_chunks [OF len])
  show "concat (np_transpose ?g2) = lin"
    using r0 by (simp add: np_transpose_involution [OF ac] s1c concat_chunks [OF len'])
  show n1: "\<forall>y < r. \<forall>x < c. ?g1 ! y ! x = lin ! (y * c + x)"
    by (simp add: chunks_nth [OF len])
  show n2: "\<forall>y < r. \<forall>x < c. ?g2 ! y ! x = lin ! (x * r + y)"
    by (simp add: np_transpose_nth s1c chunks_nth [OF len'])
  note li = last_cell_index [OF r0 c0]
  note li' = last_cell_index [OF c0 r0]
  have z1: "?g1 ! (r - 1) ! (c - 1) = 0"
    using n1 li z by simp
  have z2: "?g2 ! (r - 1) ! (c - 1) = 0"
    using n2 li li' z by (simp add: mult.commute)
  have row1: "?g1 ! (r - 1) \<in> set ?g1" using li(2) by (intro nth_mem) simp
  have in1: "0 \<in> set (?g1 ! (r - 1))"
    using z1 li chunks_row [OF len li(2)] by (metis nth_mem)
  have row2: "?g2 ! (r - 1) \<in> set ?g2" using li(2) by (intro nth_mem) (simp add: s1c)
  have lrow2: "length (?g2 ! (r - 1)) = c"
    using li(2) by (simp add: np_transpose_row s1c)
  have in2: "0 \<in> set (?g2 ! (r - 1))"
    using z2 li lrow2 by (metis nth_mem)
  from from_state_located [OF row1 in1] r c s01 s11
  show "\<exists>p. from_state ?g1 None = Inr \<lparr>dimensions = (int c, int r), grid = ?g1, tile_pos = p\<rparr>"
    by simp
  from from_state_located [OF row2 in2] r c s02 s12
  show "\<exists>p. from_state ?g2 None = Inr \<lparr>dimensions = (int c, int r), grid = ?g2, tile_pos = p\<rparr>"
    by simp
qed

text \<open>
  Claim C9. For every state the constructor accepts, with dimensions \<open>(w, h)\<close>,
  \<^verbatim>\<open>find_goals\<close> returns two states of these dimensions. Read row by row, the first grid
  is the sequence \<open>1, \<dots>, w * h - 1, 0\<close>; read column by column (row by row of its
  transpose), the second grid is the same sequence: cell \<open>(x, y)\<close> of the first holds
  element \<open>y * w + x\<close> of the sequence and cell \<open>(x, y)\<close> of the second holds element
  \<open>x * h + y\<close>. For dimensions \<open>(3, 3)\<close> the first grid reads 1 2 3, 4 5 6, 7 8 0.
\<close>

theorem C9_find_goals:
  assumes "Puzzle_init g (w, h) pos = Inr S"
  shows "\<exists>p1 p2. find_goals S = Inr (p1, p2) \<and>
     dimensions p1 = (w, h) \<and> dimensions p2 = (w, h) \<and>
     is_array2d (grid p1) \<and> shape0 (grid p1) = nat h \<and> shape1 (grid p1) = nat w \<and>
     is_array2d (grid p2) \<and> shape0 (grid p2) = nat h \<and> shape1 (grid p2) = nat w \<and>
     concat (grid p1) = map int [1..<nat (w * h)] @ [0] \<and>
     concat (np_transpose (grid p2)) = map int [1..<nat (w * h)] @ [0] \<and>
     (\<forall>y < nat h. \<forall>x < nat w.
        grid p1 ! y ! x = (map int [1..<nat (w * h)] @ [0]) ! (y * nat w + x) \<and>
        grid p2 ! y ! x = (map int [1..<nat (w * h)] @ [0]) ! (x * nat h + y)) \<and>
     ((w, h) = (3, 3) \<longrightarrow>
        grid p1 = [[1, 2, 3], [4, 5, 6], [7, 8, 0]] \<and>
        grid p2 = [[1, 4, 7], [2, 5, 8], [3, 6, 0]])"
proof -
  from Puzzle_init_Inr [OF assms]
  have d: "dimensions S = (w, h)" and w2: "2 \<le> w" and h2: "2 \<le> h" by simp_all
  define lin where "lin = map int [1..<nat (w * h)] @ [0]"
  have N: "nat (w * h) = nat h * nat w"
    using w2 h2 by (simp add: nat_mult_distrib mult.commute)
  have lin: "lin = map int [1..<nat h * nat w] @ [0]" by (simp add: lin_def N)
  have r: "2 \<le> nat h" and c: "2 \<le> nat w" using w2 h2 by simp_all
  have iw: "int (nat w) = w" and ih: "int (nat h) = h" using w2 h2 by simp_all
  let ?g1 = "chunks (nat h) (nat w) lin"
  let ?g2 = "np_transpose (chunks (nat w) (nat h) lin)"
  note ga = goal_arrays [OF r c, folded lin, unfolded iw ih]
  from ga(1) obtain q1 where f1: "from_state ?g1 None =
      Inr \<lparr>dimensions = (w, h), grid = ?g1, tile_pos = q1\<rparr>" by blast
  from ga(2) obtain q2 where f2: "from_state ?g2 None =
      Inr \<lparr>dimensions = (w, h), grid = ?g2, tile_pos = q2\<rparr>" by blast
  let ?p1 = "\<lparr>dimensions = (w, h), grid = ?g1, tile_pos = q1\<rparr>"
  let ?p2 = "\<lparr>dimensions = (w, h), grid = ?g2, tile_pos = q2\<rparr>"
  have fg: "find_goals S = Inr (?p1, ?p2)"
    unfolding find_goals_unfold(2) [OF d w2 h2, folded lin_def] by (simp add: f1 f2)
  have cells: "\<forall>y < nat h. \<forall>x < nat w.
        grid ?p1 ! y ! x = lin ! (y * nat w + x) \<and> grid ?p2 ! y ! x = lin ! (x * nat h + y)"
    using ga(11) ga(12) by simp
  have ex: "(w, h) = (3, 3) \<longrightarrow>
        grid ?p1 = [[1, 2, 3], [4, 5, 6], [7, 8, 0]] \<and>
        grid ?p2 = [[1, 4, 7], [2, 5, 8], [3, 6, 0]]"
    using example_goal1 example_goal2 by (auto simp: lin_def)
  have shapes: "dimensions ?p1 = (w, h) \<and> dimensions ?p2 = (w, h) \<and>
     is_array2d (grid ?p1) \<and> shape0 (grid ?p1) = nat h \<and> shape1 (grid ?p1) = nat w \<and>
     is_array2d (grid ?p2) \<and> shape0 (grid ?p2) = nat h \<and> shape1 (grid ?p2) = nat w"
    using ga(3-8) by simp
  have seqs: "concat (grid ?p1) = lin \<and> concat (np_transpose (grid ?p2)) = lin"
    using ga(9) ga(10) by simp
  from fg shapes seqs cells ex show ?thesis
    unfolding lin_def [symmetric] by blast
qed

theorem C9_find_goals_witness:
  "Puzzle_init [[1, 2, 3], [4, 0, 5], [6, 7, 8]] (3, 3) (1, 1) =
     Inr \<lparr>dimensions = (3, 3), grid = [[1, 2, 3], [4, 0, 5], [6, 7, 8]], tile_pos = (1, 1)\<rparr> \<and>
   find_goals
       \<lparr>dimensions = (3, 3), grid = [[1, 2, 3], [4, 0, 5], [6, 7, 8]], tile_pos = (1, 1)\<rparr> =
     Inr (\<lparr>dimensions = (3, 3), grid = [[1, 2, 3], [4, 5, 6], [7, 8, 0]], tile_pos = (2, 2)\<rparr>,
          \<lparr>dimensions = (3, 3), grid = [[1, 4, 7], [2, 5, 8], [3, 6, 0]], tile_pos = (2, 2)\<rparr>)"
proof -
  have e: "find_goals
       \<lparr>dimensions = (3, 3), grid = [[1, 2, 3], [4, 0, 5], [6, 7, 8]], tile_pos = (1, 1)\<rparr> =
     Inr (\<lparr>dimensions = (3, 3), grid = [[1, 2, 3], [4, 5, 6], [7, 8, 0]], tile_pos = (2, 2)\<rparr>,
          \<lparr>dimensions = (3, 3), grid = [[1, 4, 7], [2, 5, 8], [3, 6, 0]], tile_pos = (2, 2)\<rparr>)"
    by code_simp
  from C9_find_goals [of "[[1, 2, 3], [4, 0, 5], [6, 7, 8]]" 3 3 "(1, 1)"
      "\<lparr>dimensions = (3, 3), grid = [[1, 2, 3], [4, 0, 5], [6, 7, 8]], tile_pos = (1, 1)\<rparr>"] e
  show ?thesis by (simp add: Puzzle_init_def)
qed

section \<open>Where the empty marker is after a move\<close>

lemma wrap_round_trip:
  fixes n :: int
  assumes "2 \<le> n" "0 \<le> a" "a < n"
  shows "((a + 1) mod n - 1) mod n = a" and "((a - 1) mod n + 1) mod n = a"
  using assms by (simp_all add: mod_diff_left_eq mod_add_left_eq)

lemma wrap_twice_size_two:
  fixes a :: int
  assumes "0 \<le> a" "a < 2"
  shows "((a - 1) mod 2 - 1) mod 2 = a" and "((a + 1) mod 2 + 1) mod 2 = a"
  using assms by (simp_all add: mod_diff_left_eq mod_add_left_eq)

lemma laterals_members:
  assumes "2 \<le> w" "2 \<le> h" and m: "(t, dir) \<in> set (laterals w h x y)"
  shows "(t = (x, (y - 1) mod h) \<and> dir = (0, - 1)) \<or>
         (t = (x, (y + 1) mod h) \<and> dir = (0, 1)) \<or>
         (t = ((x + 1) mod w, y) \<and> dir = (- 1, 0)) \<or>
         (t = ((x - 1) mod w, y) \<and> dir = (1, 0))"
proof -
  have "set (laterals w h x y) \<subseteq>
      {((x, (y - 1) mod h), (0, - 1)), ((x, (y + 1) mod h), (0, 1)),
       (((x + 1) mod w, y), (- 1, 0)), (((x - 1) mod w, y), (1, 0))}"
    unfolding laterals_order [OF assms(1,2)] by simp
  with m show ?thesis by blast
qed

lemma diagonals_members:
  assumes m: "(t, dir) \<in> set (diagonals w h x y)"
  shows "(t = ((x - 1) mod w, (y - 1) mod h) \<and> dir = (1, 1)) \<or>
         (t = ((x + 1) mod w, (y + 1) mod h) \<and> dir = (- 1, - 1)) \<or>
         (t = ((x - 1) mod w, (y + 1) mod h) \<and> dir = (1, - 1)) \<or>
         (t = ((x + 1) mod w, (y - 1) mod h) \<and> dir = (- 1, 1))"
proof -
  have "set (diagonals w h x y) \<subseteq>
      {(((x - 1) mod w, (y - 1) mod h), (1, 1)), (((x + 1) mod w, (y + 1) mod h), (- 1, - 1)),
       (((x - 1) mod w, (y + 1) mod h), (1, - 1)), (((x + 1) mod w, (y - 1) mod h), (- 1, 1))}"
  proof -
    define A where "A \<longleftrightarrow> (x, y) = (0, 0) \<or> (x, y) = (w - 1, h - 1)"
    define B where "B \<longleftrightarrow> (x, y) = (w - 1, 0) \<or> (x, y) = (0, h - 1)"
    define C where "C \<longleftrightarrow> (h, w) = (2, 2)"
    show ?thesis
      unfolding diagonals_cases A_def [symmetric] B_def [symmetric] C_def [symmetric]
      by (cases C; cases A; cases B; simp)
  qed
  with m show ?thesis by blast
qed

lemma locate_tile_unique:
  assumes t: "in_grid g t" and v: "cell g t = v"
    and u: "\<And>q. in_grid g q \<Longrightarrow> cell g q = v \<Longrightarrow> q = t"
  shows "locate_tile g v = Inr t"
proof (cases "locate_tile g v")
  case (Inl e)
  then have "\<forall>row \<in> set g. v \<notin> set row"
    by (simp add: locate_tile_def locate_rows_TileNotFound)
  moreover from t have "g ! nat (snd t) \<in> set g" by (simp add: in_grid_def)
  moreover from t v have "v \<in> set (g ! nat (snd t))"
    by (auto simp: in_grid_def cell_def)
  ultimately show ?thesis by blast
next
  case (Inr q)
  then have "locate_rows g v 0 = Inr (fst q, snd q)" by (simp add: locate_tile_def)
  from locate_rows_Inr [OF this] have "in_grid g q" "cell g q = v"
    by (simp_all add: in_grid_def cell_def)
  with u Inr show ?thesis by simp
qed

lemma wrap_step_neq:
  fixes n :: int
  assumes "2 \<le> n" "0 \<le> a" "a < n"
  shows "(a + 1) mod n \<noteq> a" and "(a - 1) mod n \<noteq> a"
proof -
  have am: "a mod n = a" using assms by simp
  have nd: "\<not> n dvd 1" using assms by (auto dest: zdvd_imp_le)
  show "(a + 1) mod n \<noteq> a"
  proof
    assume "(a + 1) mod n = a"
    then have "(a + 1) mod n = a mod n" using am by simp
    then have "n dvd (a + 1) - a" by (metis mod_eq_dvd_iff)
    with nd show False by simp
  qed
  show "(a - 1) mod n \<noteq> a"
  proof
    assume "(a - 1) mod n = a"
    then have "a mod n = (a - 1) mod n" using am by simp
    then have "n dvd a - (a - 1)" by (metis mod_eq_dvd_iff)
    with nd show False by simp
  qed
qed

lemma move_reaches_empty_cell:
  assumes b: "2 \<le> w" "2 \<le> h" "0 \<le> x" "x < w" "0 \<le> y" "y < h"
    and m: "(t, dir) \<in> set (laterals w h x y) \<or> (t, dir) \<in> set (diagonals w h x y)"
    and nv: "fst dir \<noteq> 0 \<or> h = 2"
  shows "((fst t + fst dir) mod w, (snd t + snd dir) mod h) = (x, y) \<and> t \<noteq> (x, y)"
proof -
  have xm: "(x + 0) mod w = x" and ym: "(y + 0) mod h = y" using b by simp_all
  note nx = wrap_step_neq [OF b(1) b(3) b(4)]
  note ny = wrap_step_neq [OF b(2) b(5) b(6)]
  note rx = wrap_round_trip [OF b(1) b(3) b(4)]
  note ry = wrap_round_trip [OF b(2) b(5) b(6)]
  from m laterals_members [OF b(1,2), of t dir x y] diagonals_members [of t dir w h x y]
  consider
      (top) "t = (x, (y - 1) mod h)" "dir = (0, - 1)"
    | (bottom) "t = (x, (y + 1) mod h)" "dir = (0, 1)"
    | (right) "t = ((x + 1) mod w, y)" "dir = (- 1, 0)"
    | (left) "t = ((x - 1) mod w, y)" "dir = (1, 0)"
    | (d1) "t = ((x - 1) mod w, (y - 1) mod h)" "dir = (1, 1)"
    | (d2) "t = ((x + 1) mod w, (y + 1) mod h)" "dir = (- 1, - 1)"
    | (d3) "t = ((x - 1) mod w, (y + 1) mod h)" "dir = (1, - 1)"
    | (d4) "t = ((x + 1) mod w, (y - 1) mod h)" "dir = (- 1, 1)"
    by blast
  then show ?thesis
  proof cases
    case top
    with nv have h: "h = 2" by simp
    from wrap_twice_size_two(1) [of y] b h have "((y - 1) mod h + - 1) mod h = y" by simp
    with top xm ny show ?thesis by simp
  next
    case bottom
    with nv have h: "h = 2" by simp
    from wrap_twice_size_two(2) [of y] b h have "((y + 1) mod h + 1) mod h = y" by simp
    with bottom xm ny show ?thesis by simp
  next
    case right
    with rx ym nx show ?thesis by simp
  next
    case left
    with rx ym nx show ?thesis by simp
  next
    case d1
    with rx ry nx show ?thesis by simp
  next
    case d2
    with rx ry nx show ?thesis by simp
  next
    case d3
    with rx ry nx show ?thesis by simp
  next
    case d4
    with rx ry nx show ?thesis by simp
  qed
qed

text \<open>
  For a consistent state whose only empty marker is at the cached position, every move
  returned by \<^verbatim>\<open>get_moves\<close> that is not vertical, and every move when the height is 2,
  puts the marker at the move's tile coordinate, which the new state caches.
\<close>

theorem marker_after_move:
  assumes S: "consistent S" and d: "dimensions S = (w, h)" and p: "tile_pos S = (x, y)"
    and z: "cell (grid S) (x, y) = 0"
    and u: "\<And>q. in_grid (grid S) q \<Longrightarrow> cell (grid S) q = 0 \<Longrightarrow> q = (x, y)"
    and g: "get_moves S = Inr ms" and m: "(c, t, dir) \<in> set ms"
    and nv: "fst dir \<noteq> 0 \<or> h = 2"
  shows "\<exists>S'. compute_move S S (c, t, dir) = Inr S' \<and>
           locate_tile (grid S') 0 = Inr t \<and> tile_pos S' = t"
proof -
  from consistent_dims [OF S d] p
  have b: "2 \<le> w" "2 \<le> h" "0 \<le> x" "x < w" "0 \<le> y" "y < h" by simp_all
  from g m get_moves_consistent [OF S d p]
  have mem: "(t, dir) \<in> set (laterals w h x y) \<or> (t, dir) \<in> set (diagonals w h x y)"
    by auto
  from move_reaches_empty_cell [OF b mem nv]
  have e: "((fst t + fst dir) mod w, (snd t + snd dir) mod h) = (x, y)" and ne: "t \<noteq> (x, y)"
    by simp_all
  have t: "in_grid (grid S) t" by (rule get_moves_in_grid [OF S g m])
  have xy: "in_grid (grid S) (x, y)" using S p by (simp add: consistent_def)
  from compute_move_consistent [OF S d t, of c dir]
  obtain S' where cm: "compute_move S S (c, t, dir) = Inr S'"
    and sw: "swap (grid S) t (x, y) = Inr (grid S')" and tp: "tile_pos S' = t"
    unfolding e by auto
  from sw swap_in_grid [OF t xy] z
  have g': "grid S' = put (put (grid S) t 0) (x, y) (cell (grid S) t)" by simp
  have tnz: "cell (grid S) t \<noteq> 0" using u [OF t] ne by blast
  have cells: "cell (grid S') q = (if q = (x, y) then cell (grid S) t
      else if q = t then 0 else cell (grid S) q)" if "in_grid (grid S) q" for q
    using that t xy by (simp add: g' cell_put)
  have "locate_tile (grid S') 0 = Inr t"
  proof (rule locate_tile_unique)
    show "in_grid (grid S') t" using t by (simp add: g')
    show "cell (grid S') t = 0" using cells [OF t] ne by simp
  next
    fix q assume "in_grid (grid S') q" and q0: "cell (grid S') q = 0"
    then have q: "in_grid (grid S) q" by (simp add: g')
    show "q = t"
    proof (rule ccontr)
      assume nt: "q \<noteq> t"
      show False
      proof (cases "q = (x, y)")
        case True
        with cells [OF q] q0 tnz show False by simp
      next
        case False
        with cells [OF q] q0 nt have "cell (grid S) q = 0" by simp
        from u [OF q this] False show False by simp
      qed
    qed
  qed
  with cm tp show ?thesis by blast
qed

text \<open>
  Claim C1 states that after any move returned by \<^verbatim>\<open>get_moves\<close> the empty marker is at
  the move's tile coordinate, which is also the cached coordinate of the new state. The
  top and bottom moves carry the direction with the sign opposite to the one
  \<^verbatim>\<open>compute_move\<close> adds to the tile: on a 3 by 3 grid with the empty cell in the middle the
  top move exchanges the cells \<open>(1, 0)\<close> and \<open>(1, 2)\<close>, the marker stays at \<open>(1, 1)\<close> and
  the new state caches \<open>(1, 0)\<close>.
\<close>

theorem C1_vertical_move_misses_empty_cell:
  "from_state [[1, 2, 3], [4, 0, 5], [6, 7, 8]] None =
     Inr \<lparr>dimensions = (3, 3), grid = [[1, 2, 3], [4, 0, 5], [6, 7, 8]], tile_pos = (1, 1)\<rparr> \<and>
   get_moves \<lparr>dimensions = (3, 3), grid = [[1, 2, 3], [4, 0, 5], [6, 7, 8]], tile_pos = (1, 1)\<rparr> =
     Inr [(1, (1, 0), (0, - 1)), (1, (1, 2), (0, 1)), (1, (2, 1), (- 1, 0)), (1, (0, 1), (1, 0))] \<and>
   compute_move
     \<lparr>dimensions = (3, 3), grid = [[1, 2, 3], [4, 0, 5], [6, 7, 8]], tile_pos = (1, 1)\<rparr>
     \<lparr>dimensions = (3, 3), grid = [[1, 2, 3], [4, 0, 5], [6, 7, 8]], tile_pos = (1, 1)\<rparr>
     (1, (1, 0), (0, - 1)) =
     Inr \<lparr>dimensions = (3, 3), grid = [[1, 7, 3], [4, 0, 5], [6, 2, 8]], tile_pos = (1, 0)\<rparr> \<and>
   locate_tile [[1, 7, 3], [4, 0, 5], [6, 2, 8]] 0 = Inr (1, 1) \<and>
   locate_tile [[1, 7, 3], [4, 0, 5], [6, 2, 8]] 0 \<noteq> Inr (1, 0)"
  by (simp add: from_state_def locate_tile_def Puzzle_init_def shape0_def shape1_def
      get_moves_def laterals_def diagonals_def cost_def Let_def
      compute_move_def swap_def getitem_def setitem_def np_index_def)

end
